theory Spec2Isabelle
  imports Main "HOL-Library.Word"
begin

section \<open>The COMITIA voting contract\<close>

text \<open>
  A shallow embedding of the Solidity contract \<^verbatim>\<open>VotingContract\<close>
  (\<^verbatim>\<open>src/unnamed/part_003\<close>). Contract storage is a record that every
  external function takes and returns; a \<^verbatim>\<open>require\<close> that fails reverts the
  whole call, so a function returns either an error or the new storage.
  \<^verbatim>\<open>msg.sender\<close> and \<^verbatim>\<open>block.timestamp\<close> are explicit arguments
  (\<open>sender\<close>, \<open>now\<close>). Events are not storage and are left out.
\<close>

subsection \<open>Value types\<close>

type_synonym address = "160 word"
type_synonym bytes32 = "256 word"

text \<open>
  \<^verbatim>\<open>uint256\<close> values are natural numbers; the contract is compiled with
  Solidity 0.8, whose arithmetic reverts on overflow, so the increments below check the
  bound.
\<close>

type_synonym uint256 = nat

definition MAX_UINT256 :: uint256 where
  "MAX_UINT256 = 2 ^ 256 - 1"

text \<open>
  The revert reasons, named as the specification names them. The contract's message is
  given with each.
\<close>

datatype error =
    Unauthorized          \<comment> \<open>"Caller is not an election admin", "Caller is not a registered voter",
                              AccessControl's missing-role revert\<close>
  | AlreadyRegistered     \<comment> \<open>"Voter already registered"\<close>
  | NotRegistered         \<comment> \<open>"Voter not registered"\<close>
  | DuplicateElection     \<comment> \<open>"Election already exists"\<close>
  | InvalidTimeRange      \<comment> \<open>"Start time must be before end time", "End time must be in the future"\<close>
  | ElectionNotFound      \<comment> \<open>"Election does not exist"\<close>
  | ElectionNotEditable   \<comment> \<open>"Cannot modify active election"\<close>
  | InvalidMaxVotes       \<comment> \<open>"Max votes must be greater than 0"\<close>
  | InvalidSeats          \<comment> \<open>"Available seats must be greater than 0"\<close>
  | InvalidCandidateAddress \<comment> \<open>"Invalid candidate address"\<close>
  | AlreadyActive         \<comment> \<open>"Election is already active"\<close>
  | TooEarly              \<comment> \<open>"Election start time not reached"\<close>
  | NoPositions           \<comment> \<open>"Election must have at least one position"\<close>
  | NotActive             \<comment> \<open>"Election is not active"\<close>
  | VotingNotOpen         \<comment> \<open>"Voting is not active", "Voting has not started", "Voting has ended"\<close>
  | AlreadyVoted          \<comment> \<open>"Already voted for this position"\<close>
  | InvalidCandidate      \<comment> \<open>"Candidate is not active"\<close>
  | DuplicateVoteHash     \<comment> \<open>"Invalid vote hash"\<close>
  | ElectionStillActive   \<comment> \<open>"Election must be ended first"\<close>
  | AlreadyPublished      \<comment> \<open>"Results already published"\<close>
  | VoteNotFound          \<comment> \<open>"Vote not found"\<close>
  | SystemPaused          \<comment> \<open>"Pausable: paused"\<close>
  | NotPaused             \<comment> \<open>"Pausable: not paused"\<close>
  | ReentrantCall         \<comment> \<open>"ReentrancyGuard: reentrant call"\<close>
  | RenounceNotSelf       \<comment> \<open>"AccessControl: can only renounce roles for self"\<close>
  | ArithmeticOverflow    \<comment> \<open>Panic(0x11) of a checked increment\<close>

subsection \<open>Storage\<close>

record Candidate =
  c_name :: string
  party :: string
  manifesto :: string
  candidateAddress :: address
  c_voteCount :: uint256
  c_isActive :: bool

record Position =
  p_title :: string
  p_description :: string
  maxVotesPerVoter :: uint256
  availableSeats :: uint256
  candidateIds :: "string list"
  candidates :: "string \<Rightarrow> Candidate"
  p_hasVoted :: "address \<Rightarrow> bool"
  p_voteCount :: "string \<Rightarrow> uint256"

record Election =
  e_title :: string
  e_description :: string
  startTime :: uint256
  endTime :: uint256
  e_isActive :: bool
  resultsPublished :: bool
  totalVotes :: uint256
  creator :: address
  positionIds :: "string list"
  positions :: "string \<Rightarrow> Position"

record Vote =
  v_electionId :: string
  v_positionId :: string
  v_candidateId :: string
  v_voter :: address
  v_timestamp :: uint256
  v_voteHash :: bytes32
  v_isVerified :: bool

text \<open>
  The contract's state variables, with those of the OpenZeppelin bases it inherits:
  \<open>roles\<close> (AccessControl's role members), \<open>paused\<close> (Pausable) and \<open>entered\<close>
  (ReentrancyGuard's status). A Solidity mapping is total: a key never written reads as
  the zero value of its type.
\<close>

record State =
  elections :: "string \<Rightarrow> Election"
  hasVoted :: "address \<Rightarrow> string \<Rightarrow> string \<Rightarrow> bool"
  votes :: "bytes32 \<Rightarrow> Vote"
  registeredVoters :: "address \<Rightarrow> bool"
  electionExists :: "string \<Rightarrow> bool"
  electionIds :: "string list"
  voteHashes :: "bytes32 list"
  roles :: "bytes32 \<Rightarrow> address \<Rightarrow> bool"
  paused :: bool
  entered :: bool

definition zeroCandidate :: Candidate where
  "zeroCandidate = \<lparr>c_name = [], party = [], manifesto = [], candidateAddress = 0,
     c_voteCount = 0, c_isActive = False\<rparr>"

definition zeroPosition :: Position where
  "zeroPosition = \<lparr>p_title = [], p_description = [], maxVotesPerVoter = 0,
     availableSeats = 0, candidateIds = [], candidates = (\<lambda>_. zeroCandidate),
     p_hasVoted = (\<lambda>_. False), p_voteCount = (\<lambda>_. 0)\<rparr>"

definition zeroElection :: Election where
  "zeroElection = \<lparr>e_title = [], e_description = [], startTime = 0, endTime = 0,
     e_isActive = False, resultsPublished = False, totalVotes = 0, creator = 0,
     positionIds = [], positions = (\<lambda>_. zeroPosition)\<rparr>"

definition zeroVote :: Vote where
  "zeroVote = \<lparr>v_electionId = [], v_positionId = [], v_candidateId = [], v_voter = 0,
     v_timestamp = 0, v_voteHash = 0, v_isVerified = False\<rparr>"

definition zeroState :: State where
  "zeroState = \<lparr>elections = (\<lambda>_. zeroElection), hasVoted = (\<lambda>_ _ _. False),
     votes = (\<lambda>_. zeroVote), registeredVoters = (\<lambda>_. False),
     electionExists = (\<lambda>_. False), electionIds = [], voteHashes = [],
     roles = (\<lambda>_ _. False), paused = False, entered = False\<rparr>"

subsection \<open>Roles\<close>

text \<open>
  \<^verbatim>\<open>DEFAULT_ADMIN_ROLE\<close> is AccessControl's \<^verbatim>\<open>0x00\<close>; the other three are
  the Keccak-256 hashes of their names, as \<^verbatim>\<open>keccak256("ELECTION_ADMIN_ROLE")\<close>
  and its siblings evaluate.
\<close>

definition DEFAULT_ADMIN_ROLE :: bytes32 where
  "DEFAULT_ADMIN_ROLE = 0"

definition ELECTION_ADMIN_ROLE :: bytes32 where
  "ELECTION_ADMIN_ROLE = 0x16f50c1fe196fa8f2d59c3eca367f2f7bf83b35c12ed36436b26d5af3695f5c4"

definition VOTER_ROLE :: bytes32 where
  "VOTER_ROLE = 0x72c3eec1760bf69946625c2d4fb8e44e2c806345041960b434674fb9ab3976cf"

definition AUDITOR_ROLE :: bytes32 where
  "AUDITOR_ROLE = 0x59a1c48e5837ad7a7f3dcedcbe129bf3249ec4fbf651fd4f5e2600ead39fe2f5"

subsection \<open>Reverting and the inherited OpenZeppelin pieces\<close>

text \<open>
  \<^verbatim>\<open>require(c, msg); rest\<close>: the rest of the call runs when \<open>c\<close> holds, and the
  call reverts with the error otherwise. A modifier is a function of the body it wraps
  (its \<^verbatim>\<open>_;\<close>).
\<close>

definition require :: "bool \<Rightarrow> error \<Rightarrow> error + 'a \<Rightarrow> error + 'a" where
  "require c e rest = (if c then rest else Inl e)"

text \<open>\<^verbatim>\<open>x++\<close> on a \<^verbatim>\<open>uint256\<close> under checked arithmetic.\<close>

definition checked_inc :: "uint256 \<Rightarrow> (uint256 \<Rightarrow> error + 'a) \<Rightarrow> error + 'a" where
  "checked_inc x rest = (if x < MAX_UINT256 then rest (x + 1) else Inl ArithmeticOverflow)"

text \<open>
  Modelled from the spec: the contract imports OpenZeppelin 4.x
  \<^verbatim>\<open>AccessControl\<close>, \<^verbatim>\<open>Pausable\<close> and \<^verbatim>\<open>ReentrancyGuard\<close>, whose sources
  are not under \<^verbatim>\<open>src/\<close>. The specification's AccessControl (role grants
  answering authorization checks, failing \<open>Unauthorized\<close>) and PauseSwitch (a global
  flag) are modelled with the library's behaviour: \<^verbatim>\<open>hasRole\<close> reads the role's
  member map, \<^verbatim>\<open>_grantRole\<close> and \<^verbatim>\<open>_revokeRole\<close> set and clear a member,
  \<^verbatim>\<open>onlyRole\<close> reverts for a caller without the role, every role's admin role is
  \<^verbatim>\<open>DEFAULT_ADMIN_ROLE\<close> (the contract never changes it), \<^verbatim>\<open>_pause\<close>
  requires the flag clear and \<^verbatim>\<open>_unpause\<close> requires it set, and
  \<^verbatim>\<open>nonReentrant\<close> holds the guard's status for the length of the call.
\<close>

definition hasRole :: "State \<Rightarrow> bytes32 \<Rightarrow> address \<Rightarrow> bool" where
  "hasRole s role account = roles s role account"

definition internal_grantRole :: "State \<Rightarrow> bytes32 \<Rightarrow> address \<Rightarrow> State" where
  "internal_grantRole s role account =
     s\<lparr>roles := (roles s)(role := (roles s role)(account := True))\<rparr>"

definition internal_revokeRole :: "State \<Rightarrow> bytes32 \<Rightarrow> address \<Rightarrow> State" where
  "internal_revokeRole s role account =
     s\<lparr>roles := (roles s)(role := (roles s role)(account := False))\<rparr>"

definition onlyRole :: "State \<Rightarrow> bytes32 \<Rightarrow> address \<Rightarrow> error + 'a \<Rightarrow> error + 'a" where
  "onlyRole s role sender body = require (hasRole s role sender) Unauthorized body"

definition getRoleAdmin :: "State \<Rightarrow> bytes32 \<Rightarrow> bytes32" where
  "getRoleAdmin s role = DEFAULT_ADMIN_ROLE"

definition grantRole :: "State \<Rightarrow> address \<Rightarrow> bytes32 \<Rightarrow> address \<Rightarrow> error + State" where
  "grantRole s sender role account =
     onlyRole s (getRoleAdmin s role) sender (Inr (internal_grantRole s role account))"

definition revokeRole :: "State \<Rightarrow> address \<Rightarrow> bytes32 \<Rightarrow> address \<Rightarrow> error + State" where
  "revokeRole s sender role account =
     onlyRole s (getRoleAdmin s role) sender (Inr (internal_revokeRole s role account))"

definition renounceRole :: "State \<Rightarrow> address \<Rightarrow> bytes32 \<Rightarrow> address \<Rightarrow> error + State" where
  "renounceRole s sender role account =
     require (account = sender) RenounceNotSelf (Inr (internal_revokeRole s role account))"

definition whenNotPaused :: "State \<Rightarrow> error + 'a \<Rightarrow> error + 'a" where
  "whenNotPaused s body = require (\<not> paused s) SystemPaused body"

definition whenPaused :: "State \<Rightarrow> error + 'a \<Rightarrow> error + 'a" where
  "whenPaused s body = require (paused s) NotPaused body"

definition internal_pause :: "State \<Rightarrow> error + State" where
  "internal_pause s = whenNotPaused s (Inr (s\<lparr>paused := True\<rparr>))"

definition internal_unpause :: "State \<Rightarrow> error + State" where
  "internal_unpause s = whenPaused s (Inr (s\<lparr>paused := False\<rparr>))"

definition nonReentrant :: "State \<Rightarrow> (State \<Rightarrow> error + State) \<Rightarrow> error + State" where
  "nonReentrant s body =
     require (\<not> entered s) ReentrantCall
       (case body (s\<lparr>entered := True\<rparr>) of
          Inl e \<Rightarrow> Inl e
        | Inr s' \<Rightarrow> Inr (s'\<lparr>entered := False\<rparr>))"

subsection \<open>The contract's modifiers\<close>

definition onlyElectionAdmin :: "State \<Rightarrow> address \<Rightarrow> error + 'a \<Rightarrow> error + 'a" where
  "onlyElectionAdmin s sender body =
     require (hasRole s ELECTION_ADMIN_ROLE sender) Unauthorized body"

definition onlyRegisteredVoter :: "State \<Rightarrow> address \<Rightarrow> error + 'a \<Rightarrow> error + 'a" where
  "onlyRegisteredVoter s sender body =
     require (registeredVoters s sender) Unauthorized body"

definition electionMustExist :: "State \<Rightarrow> string \<Rightarrow> error + 'a \<Rightarrow> error + 'a" where
  "electionMustExist s electionId body =
     require (electionExists s electionId) ElectionNotFound body"

definition votingMustBeActive :: "State \<Rightarrow> uint256 \<Rightarrow> string \<Rightarrow> error + 'a \<Rightarrow> error + 'a" where
  "votingMustBeActive s now electionId body =
     require (e_isActive (elections s electionId)) VotingNotOpen
       (require (now \<ge> startTime (elections s electionId)) VotingNotOpen
         (require (now \<le> endTime (elections s electionId)) VotingNotOpen body))"

definition hasNotVoted :: "State \<Rightarrow> address \<Rightarrow> string \<Rightarrow> string \<Rightarrow> error + 'a \<Rightarrow> error + 'a" where
  "hasNotVoted s sender electionId positionId body =
     require (\<not> hasVoted s sender electionId positionId) AlreadyVoted body"

subsection \<open>Constructor and external functions\<close>

definition constructor :: "address \<Rightarrow> State" where
  "constructor sender =
     internal_grantRole (internal_grantRole zeroState DEFAULT_ADMIN_ROLE sender)
       ELECTION_ADMIN_ROLE sender"

definition registerVoter :: "State \<Rightarrow> address \<Rightarrow> address \<Rightarrow> error + State" where
  "registerVoter s sender voter =
     onlyElectionAdmin s sender
       (require (\<not> registeredVoters s voter) AlreadyRegistered
         (Inr (internal_grantRole
                (s\<lparr>registeredVoters := (registeredVoters s)(voter := True)\<rparr>)
                VOTER_ROLE voter)))"

definition revokeVoter :: "State \<Rightarrow> address \<Rightarrow> address \<Rightarrow> error + State" where
  "revokeVoter s sender voter =
     onlyElectionAdmin s sender
       (require (registeredVoters s voter) NotRegistered
         (Inr (internal_revokeRole
                (s\<lparr>registeredVoters := (registeredVoters s)(voter := False)\<rparr>)
                VOTER_ROLE voter)))"

definition createElection ::
  "State \<Rightarrow> address \<Rightarrow> uint256 \<Rightarrow> string \<Rightarrow> string \<Rightarrow> string \<Rightarrow> uint256 \<Rightarrow> uint256
     \<Rightarrow> error + State" where
  "createElection s sender now electionId title description start end =
     onlyElectionAdmin s sender
       (require (\<not> electionExists s electionId) DuplicateElection
         (require (start < end) InvalidTimeRange
           (require (end > now) InvalidTimeRange
             (let newElection = (elections s electionId)
                    \<lparr>e_title := title, e_description := description, startTime := start,
                     endTime := end, e_isActive := False, resultsPublished := False,
                     totalVotes := 0, creator := sender\<rparr>
              in Inr (s\<lparr>elections := (elections s)(electionId := newElection),
                        electionExists := (electionExists s)(electionId := True),
                        electionIds := electionIds s @ [electionId]\<rparr>)))))"

definition addPosition ::
  "State \<Rightarrow> address \<Rightarrow> string \<Rightarrow> string \<Rightarrow> string \<Rightarrow> string \<Rightarrow> uint256 \<Rightarrow> uint256
     \<Rightarrow> error + State" where
  "addPosition s sender electionId positionId title description maxVotes seats =
     onlyElectionAdmin s sender
       (electionMustExist s electionId
         (require (\<not> e_isActive (elections s electionId)) ElectionNotEditable
           (require (maxVotes > 0) InvalidMaxVotes
             (require (seats > 0) InvalidSeats
               (let election = elections s electionId;
                    position = (positions election positionId)
                      \<lparr>p_title := title, p_description := description,
                       maxVotesPerVoter := maxVotes, availableSeats := seats\<rparr>
                in Inr (s\<lparr>elections := (elections s)(electionId := election
                          \<lparr>positionIds := positionIds election @ [positionId],
                           positions := (positions election)(positionId := position)\<rparr>)\<rparr>))))))"

definition registerCandidate ::
  "State \<Rightarrow> address \<Rightarrow> string \<Rightarrow> string \<Rightarrow> string \<Rightarrow> string \<Rightarrow> string \<Rightarrow> string \<Rightarrow> address
     \<Rightarrow> error + State" where
  "registerCandidate s sender electionId positionId candidateId name prty manif addr =
     onlyElectionAdmin s sender
       (electionMustExist s electionId
         (require (\<not> e_isActive (elections s electionId)) ElectionNotEditable
           (require (addr \<noteq> 0) InvalidCandidateAddress
             (let election = elections s electionId;
                  position = positions election positionId;
                  candidate = (candidates position candidateId)
                    \<lparr>c_name := name, party := prty, manifesto := manif,
                     candidateAddress := addr, c_voteCount := 0, c_isActive := True\<rparr>
              in Inr (s\<lparr>elections := (elections s)(electionId := election
                        \<lparr>positions := (positions election)(positionId := position
                          \<lparr>candidateIds := candidateIds position @ [candidateId],
                           candidates := (candidates position)(candidateId := candidate)\<rparr>)\<rparr>)\<rparr>)))))"

definition startElection :: "State \<Rightarrow> address \<Rightarrow> uint256 \<Rightarrow> string \<Rightarrow> error + State" where
  "startElection s sender now electionId =
     onlyElectionAdmin s sender
       (electionMustExist s electionId
         (let election = elections s electionId
          in require (\<not> e_isActive election) AlreadyActive
              (require (now \<ge> startTime election) TooEarly
                (require (length (positionIds election) > 0) NoPositions
                  (Inr (s\<lparr>elections := (elections s)(electionId :=
                          election\<lparr>e_isActive := True\<rparr>)\<rparr>))))))"

definition endElection :: "State \<Rightarrow> address \<Rightarrow> string \<Rightarrow> error + State" where
  "endElection s sender electionId =
     onlyElectionAdmin s sender
       (electionMustExist s electionId
         (let election = elections s electionId
          in require (e_isActive election) NotActive
              (Inr (s\<lparr>elections := (elections s)(electionId :=
                      election\<lparr>e_isActive := False\<rparr>)\<rparr>))))"

text \<open>
  The body of \<^verbatim>\<open>castVote\<close>, after its modifiers. The three storage pointers
  \<open>election\<close>, \<open>position\<close> and \<open>candidate\<close> alias nested storage, so the writes
  through them are written back into the nested maps. All seven fields of
  \<^verbatim>\<open>votes[voteHash]\<close> are assigned.
\<close>

definition castVote_body ::
  "State \<Rightarrow> address \<Rightarrow> uint256 \<Rightarrow> string \<Rightarrow> string \<Rightarrow> string \<Rightarrow> bytes32 \<Rightarrow> error + State" where
  "castVote_body s sender now electionId positionId candidateId voteHash =
     (let election = elections s electionId;
          position = positions election positionId;
          candidate = candidates position candidateId
      in require (c_isActive candidate) InvalidCandidate
          (require (voteHash \<noteq> 0) DuplicateVoteHash
            (let vote = \<lparr>v_electionId = electionId, v_positionId = positionId,
                         v_candidateId = candidateId, v_voter = sender, v_timestamp = now,
                         v_voteHash = voteHash, v_isVerified = True\<rparr>
             in checked_inc (p_voteCount position candidateId) (\<lambda>pv.
                checked_inc (c_voteCount candidate) (\<lambda>cv.
                checked_inc (totalVotes election) (\<lambda>tv.
                  Inr (s\<lparr>votes := (votes s)(voteHash := vote),
                         hasVoted := (hasVoted s)(sender := (hasVoted s sender)
                           (electionId := (hasVoted s sender electionId)(positionId := True))),
                         elections := (elections s)(electionId := election
                           \<lparr>totalVotes := tv,
                            positions := (positions election)(positionId := position
                              \<lparr>candidates := (candidates position)(candidateId :=
                                 candidate\<lparr>c_voteCount := cv\<rparr>),
                               p_hasVoted := (p_hasVoted position)(sender := True),
                               p_voteCount := (p_voteCount position)(candidateId := pv)\<rparr>)\<rparr>),
                         voteHashes := voteHashes s @ [voteHash]\<rparr>)))))))"

text \<open>
  \<^verbatim>\<open>castVote\<close> with its modifiers in the order the source lists them:
  \<^verbatim>\<open>onlyRegisteredVoter nonReentrant whenNotPaused electionMustExist
  votingMustBeActive hasNotVoted\<close>.
\<close>

definition castVote ::
  "State \<Rightarrow> address \<Rightarrow> uint256 \<Rightarrow> string \<Rightarrow> string \<Rightarrow> string \<Rightarrow> bytes32 \<Rightarrow> error + State" where
  "castVote s sender now electionId positionId candidateId voteHash =
     onlyRegisteredVoter s sender
       (nonReentrant s (\<lambda>s1.
          whenNotPaused s1
            (electionMustExist s1 electionId
              (votingMustBeActive s1 now electionId
                (hasNotVoted s1 sender electionId positionId
                  (castVote_body s1 sender now electionId positionId candidateId
                     voteHash))))))"

definition publishResults :: "State \<Rightarrow> address \<Rightarrow> string \<Rightarrow> error + State" where
  "publishResults s sender electionId =
     onlyElectionAdmin s sender
       (electionMustExist s electionId
         (let election = elections s electionId
          in require (\<not> e_isActive election) ElectionStillActive
              (require (\<not> resultsPublished election) AlreadyPublished
                (Inr (s\<lparr>elections := (elections s)(electionId :=
                        election\<lparr>resultsPublished := True\<rparr>)\<rparr>)))))"

text \<open>The views return a value and no storage: they cannot write.\<close>

definition verifyVote ::
  "State \<Rightarrow> bytes32 \<Rightarrow> error + (string \<times> string \<times> string \<times> address \<times> uint256 \<times> bool)" where
  "verifyVote s voteHash =
     (let vote = votes s voteHash
      in require (v_voter vote \<noteq> 0) VoteNotFound
          (Inr (v_electionId vote, v_positionId vote, v_candidateId vote, v_voter vote,
                v_timestamp vote, v_isVerified vote)))"

definition getCandidateVoteCount :: "State \<Rightarrow> string \<Rightarrow> string \<Rightarrow> string \<Rightarrow> error + uint256" where
  "getCandidateVoteCount s electionId positionId candidateId =
     electionMustExist s electionId
       (Inr (c_voteCount (candidates (positions (elections s electionId) positionId)
               candidateId)))"

definition getElectionCount :: "State \<Rightarrow> uint256" where
  "getElectionCount s = length (electionIds s)"

definition getTotalVotesCast :: "State \<Rightarrow> uint256" where
  "getTotalVotesCast s = length (voteHashes s)"

definition hasVoterVoted :: "State \<Rightarrow> address \<Rightarrow> string \<Rightarrow> string \<Rightarrow> bool" where
  "hasVoterVoted s voter electionId positionId = hasVoted s voter electionId positionId"

definition pause :: "State \<Rightarrow> address \<Rightarrow> error + State" where
  "pause s sender = onlyRole s DEFAULT_ADMIN_ROLE sender (internal_pause s)"

definition unpause :: "State \<Rightarrow> address \<Rightarrow> error + State" where
  "unpause s sender = onlyRole s DEFAULT_ADMIN_ROLE sender (internal_unpause s)"

subsection \<open>Transactions and reachable states\<close>

datatype operation =
    RegisterVoter address
  | RevokeVoter address
  | CreateElection string string string uint256 uint256
  | AddPosition string string string string uint256 uint256
  | RegisterCandidate string string string string string string address
  | StartElection string
  | EndElection string
  | CastVote string string string bytes32
  | PublishResults string
  | Pause
  | Unpause
  | GrantRole bytes32 address
  | RevokeRole bytes32 address
  | RenounceRole bytes32 address

fun step :: "State \<Rightarrow> address \<Rightarrow> uint256 \<Rightarrow> operation \<Rightarrow> error + State" where
  "step s sender now (RegisterVoter v) = registerVoter s sender v"
| "step s sender now (RevokeVoter v) = revokeVoter s sender v"
| "step s sender now (CreateElection e t d st en) = createElection s sender now e t d st en"
| "step s sender now (AddPosition e p t d m a) = addPosition s sender e p t d m a"
| "step s sender now (RegisterCandidate e p c n pa m a) =
     registerCandidate s sender e p c n pa m a"
| "step s sender now (StartElection e) = startElection s sender now e"
| "step s sender now (EndElection e) = endElection s sender e"
| "step s sender now (CastVote e p c h) = castVote s sender now e p c h"
| "step s sender now (PublishResults e) = publishResults s sender e"
| "step s sender now Pause = pause s sender"
| "step s sender now Unpause = unpause s sender"
| "step s sender now (GrantRole r a) = grantRole s sender r a"
| "step s sender now (RevokeRole r a) = revokeRole s sender r a"
| "step s sender now (RenounceRole r a) = renounceRole s sender r a"

text \<open>
  A transaction that reverts leaves storage as it was. \<open>run\<close> plays a list of
  transactions (caller, block time, call) from a state.
\<close>

definition transact :: "State \<Rightarrow> address \<times> uint256 \<times> operation \<Rightarrow> State" where
  "transact s tx =
     (case tx of (sender, now, opn) \<Rightarrow>
        (case step s sender now opn of Inl e \<Rightarrow> s | Inr s' \<Rightarrow> s'))"

fun run :: "State \<Rightarrow> (address \<times> uint256 \<times> operation) list \<Rightarrow> State" where
  "run s [] = s"
| "run s (tx # txs) = run (transact s tx) txs"

text \<open>
  The states the deployed contract can be in: the constructor's, and those reached by
  successful calls. No transaction has the zero address as its sender.
\<close>

inductive reachable :: "State \<Rightarrow> bool" where
  reachable_init: "deployer \<noteq> 0 \<Longrightarrow> reachable (constructor deployer)"
| reachable_step: "reachable s \<Longrightarrow> sender \<noteq> 0 \<Longrightarrow> step s sender now opn = Inr s'
     \<Longrightarrow> reachable s'"

subsection \<open>Derived notions\<close>

text \<open>The storage a successful \<^verbatim>\<open>castVote\<close> leaves, written out once.\<close>

definition cast_result ::
  "State \<Rightarrow> address \<Rightarrow> uint256 \<Rightarrow> string \<Rightarrow> string \<Rightarrow> string \<Rightarrow> bytes32 \<Rightarrow> State" where
  "cast_result s a now e p c h =
     s\<lparr>votes := (votes s)(h := \<lparr>v_electionId = e, v_positionId = p, v_candidateId = c,
            v_voter = a, v_timestamp = now, v_voteHash = h, v_isVerified = True\<rparr>),
       hasVoted := (hasVoted s)(a := (hasVoted s a)(e := (hasVoted s a e)(p := True))),
       elections := (elections s)(e := (elections s e)
         \<lparr>totalVotes := totalVotes (elections s e) + 1,
          positions := (positions (elections s e))(p := (positions (elections s e) p)
            \<lparr>candidates := (candidates (positions (elections s e) p))(c :=
               (candidates (positions (elections s e) p) c)
                 \<lparr>c_voteCount := c_voteCount (candidates (positions (elections s e) p) c) + 1\<rparr>),
             p_hasVoted := (p_hasVoted (positions (elections s e) p))(a := True),
             p_voteCount := (p_voteCount (positions (elections s e) p))
               (c := p_voteCount (positions (elections s e) p) c + 1)\<rparr>)\<rparr>),
       voteHashes := voteHashes s @ [h]\<rparr>"

text \<open>
  A vote record is stored under a hash when its voter is set: the test
  \<^verbatim>\<open>verifyVote\<close> makes. The stored records are those under the hashes logged in
  \<^verbatim>\<open>voteHashes\<close>, each hash taken once.
\<close>

definition voteStored :: "State \<Rightarrow> bytes32 \<Rightarrow> bool" where
  "voteStored s h \<longleftrightarrow> v_voter (votes s h) \<noteq> 0"

definition storedVotes :: "State \<Rightarrow> Vote list" where
  "storedVotes s = map (votes s) (remdups (voteHashes s))"

definition electionVoteRecords :: "State \<Rightarrow> string \<Rightarrow> Vote list" where
  "electionVoteRecords s e = filter (\<lambda>v. v_electionId v = e) (storedVotes s)"

definition candidateVoteRecords :: "State \<Rightarrow> string \<Rightarrow> string \<Rightarrow> string \<Rightarrow> Vote list" where
  "candidateVoteRecords s e p c =
     filter (\<lambda>v. v_electionId v = e \<and> v_positionId v = p \<and> v_candidateId v = c)
       (storedVotes s)"

text \<open>The logged hashes whose record names a candidate.\<close>

definition candidateVotesLogged :: "State \<Rightarrow> string \<Rightarrow> string \<Rightarrow> string \<Rightarrow> bytes32 list" where
  "candidateVotesLogged s e p c =
     filter (\<lambda>h. v_electionId (votes s h) = e \<and> v_positionId (votes s h) = p \<and>
                v_candidateId (votes s h) = c) (voteHashes s)"

definition candidateOf :: "State \<Rightarrow> string \<Rightarrow> string \<Rightarrow> string \<Rightarrow> Candidate" where
  "candidateOf s e p c = candidates (positions (elections s e) p) c"

definition voteKey :: "Vote \<Rightarrow> address \<times> string \<times> string" where
  "voteKey v = (v_voter v, v_electionId v, v_positionId v)"

text \<open>
  The guards of \<^verbatim>\<open>castVote\<close> as a list of (condition, error), in the order
  the modifiers and the body's requires run, and the error of the first guard that
  fails.
\<close>

definition castVote_guards ::
  "State \<Rightarrow> address \<Rightarrow> uint256 \<Rightarrow> string \<Rightarrow> string \<Rightarrow> string \<Rightarrow> bytes32 \<Rightarrow> (bool \<times> error) list"
  where
  "castVote_guards s a now e p c h =
     [(registeredVoters s a, Unauthorized),
      (\<not> paused s, SystemPaused),
      (electionExists s e, ElectionNotFound),
      (e_isActive (elections s e) \<and> startTime (elections s e) \<le> now \<and>
         now \<le> endTime (elections s e), VotingNotOpen),
      (\<not> hasVoted s a e p, AlreadyVoted),
      (c_isActive (candidateOf s e p c), InvalidCandidate),
      (h \<noteq> 0, DuplicateVoteHash)]"

fun first_failure :: "(bool \<times> error) list \<Rightarrow> error option" where
  "first_failure [] = None"
| "first_failure ((ok, err) # gs) = (if ok then first_failure gs else Some err)"

text \<open>The administrative calls, and the calls that write the record of a hash.\<close>

fun is_admin_op :: "operation \<Rightarrow> bool" where
  "is_admin_op (RegisterVoter v) = True"
| "is_admin_op (RevokeVoter v) = True"
| "is_admin_op (CreateElection e t d st en) = True"
| "is_admin_op (AddPosition e p t d m a) = True"
| "is_admin_op (RegisterCandidate e p c n pa m a) = True"
| "is_admin_op (StartElection e) = True"
| "is_admin_op (EndElection e) = True"
| "is_admin_op (PublishResults e) = True"
| "is_admin_op opn = False"

fun is_castVote :: "operation \<Rightarrow> bool" where
  "is_castVote (CastVote e p c h) = True"
| "is_castVote opn = False"

fun casts_hash :: "operation \<Rightarrow> bytes32 \<Rightarrow> bool" where
  "casts_hash (CastVote e p c h) k = (h = k)"
| "casts_hash opn k = False"

subsection \<open>Invariants of the reachable states\<close>

definition inv_elections :: "State \<Rightarrow> bool" where
  "inv_elections s \<longleftrightarrow>
     distinct (electionIds s) \<and>
     (\<forall>e. electionExists s e \<longleftrightarrow> e \<in> set (electionIds s)) \<and>
     (\<forall>e. \<not> electionExists s e \<longrightarrow> elections s e = zeroElection)"

definition inv_votes :: "State \<Rightarrow> bool" where
  "inv_votes s \<longleftrightarrow>
     (\<forall>h. h \<notin> set (voteHashes s) \<longrightarrow> votes s h = zeroVote) \<and>
     (\<forall>h. h \<in> set (voteHashes s) \<longrightarrow> v_voter (votes s h) \<noteq> 0 \<and>
        hasVoted s (v_voter (votes s h)) (v_electionId (votes s h)) (v_positionId (votes s h))) \<and>
     (\<forall>h1 h2. h1 \<in> set (voteHashes s) \<longrightarrow> h2 \<in> set (voteHashes s) \<longrightarrow>
        voteKey (votes s h1) = voteKey (votes s h2) \<longrightarrow> h1 = h2)"

definition inv_tally :: "State \<Rightarrow> bool" where
  "inv_tally s \<longleftrightarrow>
     (distinct (voteHashes s) \<longrightarrow>
       (\<forall>e. totalVotes (elections s e) =
          length (filter (\<lambda>h. v_electionId (votes s h) = e) (voteHashes s))))"

definition inv_candidates :: "State \<Rightarrow> bool" where
  "inv_candidates s \<longleftrightarrow>
     (\<forall>e p c. c \<notin> set (candidateIds (positions (elections s e) p)) \<longrightarrow>
        candidates (positions (elections s e) p) c = zeroCandidate) \<and>
     (\<forall>h. h \<in> set (voteHashes s) \<longrightarrow>
        v_candidateId (votes s h) \<in> set (candidateIds
          (positions (elections s (v_electionId (votes s h))) (v_positionId (votes s h))))) \<and>
     (distinct (voteHashes s) \<longrightarrow>
        (\<forall>e p c. count_list (candidateIds (positions (elections s e) p)) c \<le> 1 \<longrightarrow>
           c_voteCount (candidates (positions (elections s e) p) c) =
             length (candidateVotesLogged s e p c)))"

subsection \<open>A worked election\<close>

text \<open>
  The scenario of the specification: the deployer (address 1) creates election
  \<open>E1\<close> with the window [100, 3700], adds position \<open>P1\<close>, registers candidates
  \<open>C1\<close> and \<open>C2\<close> and voters 2 and 3, and starts the election at time 100.
\<close>

definition ballot_setup :: "(address \<times> uint256 \<times> operation) list" where
  "ballot_setup =
     [(1, 50, CreateElection ''E1'' ''General'' ''2026'' 100 3700),
      (1, 51, AddPosition ''E1'' ''P1'' ''President'' [] 1 1),
      (1, 52, RegisterCandidate ''E1'' ''P1'' ''C1'' ''Alice'' [] [] 0x11),
      (1, 53, RegisterCandidate ''E1'' ''P1'' ''C2'' ''Bob'' [] [] 0x12),
      (1, 54, RegisterVoter 2),
      (1, 55, RegisterVoter 3),
      (1, 100, StartElection ''E1'')]"

definition s_created :: State where
  "s_created = run (constructor 1) (take 1 ballot_setup)"

definition s_open :: State where
  "s_open = run (constructor 1) ballot_setup"

definition s_voted :: State where
  "s_voted = transact s_open (2, 110, CastVote ''E1'' ''P1'' ''C1'' 0xAA)"

definition s_revoted :: State where
  "s_revoted = transact s_voted (3, 120, CastVote ''E1'' ''P1'' ''C2'' 0xAA)"

definition s_ended :: State where
  "s_ended = transact s_voted (1, 200, EndElection ''E1'')"

definition s_published :: State where
  "s_published = transact s_ended (1, 210, PublishResults ''E1'')"

text \<open>
  Two paused states: the deployer pauses right after deployment, and pauses while
  \<open>E1\<close> is open.
\<close>

definition s_paused_fresh :: State where
  "s_paused_fresh = transact (constructor 1) (1, 10, Pause)"

definition s_open_paused :: State where
  "s_open_paused = transact s_open (1, 105, Pause)"

section \<open>Basic facts\<close>

subsection \<open>When each call succeeds, and what it leaves\<close>

lemma require_Inr [simp]: "require c e k = Inr x \<longleftrightarrow> c \<and> k = Inr x"
  by (simp add: require_def)

lemma require_Inl: "require c e k = Inl e' \<longleftrightarrow> (\<not> c \<and> e' = e) \<or> (c \<and> k = Inl e')"
  by (auto simp: require_def)

lemma require_True [simp]: "c \<Longrightarrow> require c e k = k"
  by (simp add: require_def)

lemma require_False [simp]: "\<not> c \<Longrightarrow> require c e k = Inl e"
  by (simp add: require_def)

lemma checked_inc_Inr [simp]:
  "checked_inc x k = Inr y \<longleftrightarrow> x < MAX_UINT256 \<and> k (x + 1) = Inr y"
  by (simp add: checked_inc_def)

lemmas modifier_defs = onlyElectionAdmin_def onlyRegisteredVoter_def electionMustExist_def
  votingMustBeActive_def hasNotVoted_def whenNotPaused_def whenPaused_def onlyRole_def

lemma registerVoter_Inr:
  "registerVoter s a v = Inr s' \<longleftrightarrow>
     hasRole s ELECTION_ADMIN_ROLE a \<and> \<not> registeredVoters s v \<and>
     s' = s\<lparr>registeredVoters := (registeredVoters s)(v := True),
            roles := (roles s)(VOTER_ROLE := (roles s VOTER_ROLE)(v := True))\<rparr>"
  by (auto simp: registerVoter_def modifier_defs internal_grantRole_def)

lemma revokeVoter_Inr:
  "revokeVoter s a v = Inr s' \<longleftrightarrow>
     hasRole s ELECTION_ADMIN_ROLE a \<and> registeredVoters s v \<and>
     s' = s\<lparr>registeredVoters := (registeredVoters s)(v := False),
            roles := (roles s)(VOTER_ROLE := (roles s VOTER_ROLE)(v := False))\<rparr>"
  by (auto simp: revokeVoter_def modifier_defs internal_revokeRole_def)

lemma createElection_Inr:
  "createElection s a now e t d st en = Inr s' \<longleftrightarrow>
     hasRole s ELECTION_ADMIN_ROLE a \<and> \<not> electionExists s e \<and> st < en \<and> now < en \<and>
     s' = s\<lparr>elections := (elections s)(e := (elections s e)
              \<lparr>e_title := t, e_description := d, startTime := st, endTime := en,
               e_isActive := False, resultsPublished := False, totalVotes := 0,
               creator := a\<rparr>),
            electionExists := (electionExists s)(e := True),
            electionIds := electionIds s @ [e]\<rparr>"
  by (auto simp: createElection_def modifier_defs Let_def)

lemma addPosition_Inr:
  "addPosition s a e p t d m n = Inr s' \<longleftrightarrow>
     hasRole s ELECTION_ADMIN_ROLE a \<and> electionExists s e \<and> \<not> e_isActive (elections s e) \<and>
     0 < m \<and> 0 < n \<and>
     s' = s\<lparr>elections := (elections s)(e := (elections s e)
              \<lparr>positionIds := positionIds (elections s e) @ [p],
               positions := (positions (elections s e))(p := (positions (elections s e) p)
                 \<lparr>p_title := t, p_description := d, maxVotesPerVoter := m,
                  availableSeats := n\<rparr>)\<rparr>)\<rparr>"
  by (auto simp: addPosition_def modifier_defs Let_def)

lemma registerCandidate_Inr:
  "registerCandidate s a e p c n pa m ad = Inr s' \<longleftrightarrow>
     hasRole s ELECTION_ADMIN_ROLE a \<and> electionExists s e \<and> \<not> e_isActive (elections s e) \<and>
     ad \<noteq> 0 \<and>
     s' = s\<lparr>elections := (elections s)(e := (elections s e)
              \<lparr>positions := (positions (elections s e))(p := (positions (elections s e) p)
                 \<lparr>candidateIds := candidateIds (positions (elections s e) p) @ [c],
                  candidates := (candidates (positions (elections s e) p))(c :=
                    (candidates (positions (elections s e) p) c)
                      \<lparr>c_name := n, party := pa, manifesto := m, candidateAddress := ad,
                       c_voteCount := 0, c_isActive := True\<rparr>)\<rparr>)\<rparr>)\<rparr>"
  by (auto simp: registerCandidate_def modifier_defs Let_def)

lemma startElection_Inr:
  "startElection s a now e = Inr s' \<longleftrightarrow>
     hasRole s ELECTION_ADMIN_ROLE a \<and> electionExists s e \<and> \<not> e_isActive (elections s e) \<and>
     startTime (elections s e) \<le> now \<and> positionIds (elections s e) \<noteq> [] \<and>
     s' = s\<lparr>elections := (elections s)(e := (elections s e)\<lparr>e_isActive := True\<rparr>)\<rparr>"
  by (auto simp: startElection_def modifier_defs Let_def)

lemma endElection_Inr:
  "endElection s a e = Inr s' \<longleftrightarrow>
     hasRole s ELECTION_ADMIN_ROLE a \<and> electionExists s e \<and> e_isActive (elections s e) \<and>
     s' = s\<lparr>elections := (elections s)(e := (elections s e)\<lparr>e_isActive := False\<rparr>)\<rparr>"
  by (auto simp: endElection_def modifier_defs Let_def)

lemma publishResults_Inr:
  "publishResults s a e = Inr s' \<longleftrightarrow>
     hasRole s ELECTION_ADMIN_ROLE a \<and> electionExists s e \<and> \<not> e_isActive (elections s e) \<and>
     \<not> resultsPublished (elections s e) \<and>
     s' = s\<lparr>elections := (elections s)(e := (elections s e)\<lparr>resultsPublished := True\<rparr>)\<rparr>"
  by (auto simp: publishResults_def modifier_defs Let_def)

lemma pause_Inr:
  "pause s a = Inr s' \<longleftrightarrow> hasRole s DEFAULT_ADMIN_ROLE a \<and> \<not> paused s \<and> s' = s\<lparr>paused := True\<rparr>"
  by (auto simp: pause_def internal_pause_def modifier_defs)

lemma unpause_Inr:
  "unpause s a = Inr s' \<longleftrightarrow> hasRole s DEFAULT_ADMIN_ROLE a \<and> paused s \<and> s' = s\<lparr>paused := False\<rparr>"
  by (auto simp: unpause_def internal_unpause_def modifier_defs)

lemma grantRole_Inr:
  "grantRole s a r x = Inr s' \<longleftrightarrow>
     hasRole s DEFAULT_ADMIN_ROLE a \<and> s' = s\<lparr>roles := (roles s)(r := (roles s r)(x := True))\<rparr>"
  by (auto simp: grantRole_def getRoleAdmin_def internal_grantRole_def modifier_defs)

lemma revokeRole_Inr:
  "revokeRole s a r x = Inr s' \<longleftrightarrow>
     hasRole s DEFAULT_ADMIN_ROLE a \<and> s' = s\<lparr>roles := (roles s)(r := (roles s r)(x := False))\<rparr>"
  by (auto simp: revokeRole_def getRoleAdmin_def internal_revokeRole_def modifier_defs)

lemma renounceRole_Inr:
  "renounceRole s a r x = Inr s' \<longleftrightarrow>
     x = a \<and> s' = s\<lparr>roles := (roles s)(r := (roles s r)(x := False))\<rparr>"
  by (auto simp: renounceRole_def internal_revokeRole_def)

lemma castVote_Inr:
  "castVote s a now e p c h = Inr s' \<longleftrightarrow>
     registeredVoters s a \<and> \<not> entered s \<and> \<not> paused s \<and> electionExists s e \<and>
     e_isActive (elections s e) \<and> startTime (elections s e) \<le> now \<and>
     now \<le> endTime (elections s e) \<and> \<not> hasVoted s a e p \<and>
     c_isActive (candidates (positions (elections s e) p) c) \<and> h \<noteq> 0 \<and>
     p_voteCount (positions (elections s e) p) c < MAX_UINT256 \<and>
     c_voteCount (candidates (positions (elections s e) p) c) < MAX_UINT256 \<and>
     totalVotes (elections s e) < MAX_UINT256 \<and>
     s' = cast_result s a now e p c h"
  by (auto simp: castVote_def castVote_body_def nonReentrant_def modifier_defs Let_def
      cast_result_def checked_inc_def split: sum.splits)

lemmas step_Inr = registerVoter_Inr revokeVoter_Inr createElection_Inr addPosition_Inr
  registerCandidate_Inr startElection_Inr endElection_Inr castVote_Inr publishResults_Inr
  pause_Inr unpause_Inr grantRole_Inr revokeRole_Inr renounceRole_Inr




lemma constructor_inv_elections: "inv_elections (constructor d)"
  by (simp add: inv_elections_def constructor_def internal_grantRole_def zeroState_def)

lemma step_inv_elections:
  "inv_elections s \<Longrightarrow> step s a now opn = Inr s' \<Longrightarrow> inv_elections s'"
  by (cases opn) (auto simp: step_Inr cast_result_def inv_elections_def)

lemma constructor_inv_votes: "inv_votes (constructor d)"
  by (simp add: inv_votes_def constructor_def internal_grantRole_def zeroState_def)

lemma castVote_inv_votes:
  assumes "inv_votes s" "a \<noteq> 0" "castVote s a now e p c h = Inr s'"
  shows "inv_votes s'"
proof -
  from assms(3) have s': "s' = cast_result s a now e p c h" and nv: "\<not> hasVoted s a e p"
    by (simp_all add: castVote_Inr)
  have fresh: "voteKey (votes s k) \<noteq> (a, e, p)" if "k \<in> set (voteHashes s)" for k
    using assms(1) that nv by (auto simp: inv_votes_def voteKey_def)
  show ?thesis
    unfolding inv_votes_def
  proof (intro conjI allI impI)
    fix k assume "k \<notin> set (voteHashes s')"
    then show "votes s' k = zeroVote"
      using assms(1) by (auto simp: s' cast_result_def inv_votes_def)
  next
    fix k assume "k \<in> set (voteHashes s')"
    then show "v_voter (votes s' k) \<noteq> 0"
      using assms(1,2) by (auto simp: s' cast_result_def inv_votes_def)
  next
    fix k assume "k \<in> set (voteHashes s')"
    then show "hasVoted s' (v_voter (votes s' k)) (v_electionId (votes s' k))
        (v_positionId (votes s' k))"
      using assms(1) by (auto simp: s' cast_result_def inv_votes_def)
  next
    fix h1 h2
    assume h: "h1 \<in> set (voteHashes s')" "h2 \<in> set (voteHashes s')"
      "voteKey (votes s' h1) = voteKey (votes s' h2)"
    show "h1 = h2"
    proof (cases "h1 = h \<or> h2 = h")
      case True
      then show ?thesis
        using h fresh by (auto simp: s' cast_result_def voteKey_def split: if_splits)
    next
      case False
      then show ?thesis
        using h assms(1) by (auto simp: s' cast_result_def inv_votes_def)
    qed
  qed
qed

lemma step_inv_votes:
  "inv_votes s \<Longrightarrow> a \<noteq> 0 \<Longrightarrow> step s a now opn = Inr s' \<Longrightarrow> inv_votes s'"
proof (cases opn)
  case (CastVote e p c h)
  then show "inv_votes s \<Longrightarrow> a \<noteq> 0 \<Longrightarrow> step s a now opn = Inr s' \<Longrightarrow> inv_votes s'"
    using castVote_inv_votes by simp
qed (auto simp: step_Inr inv_votes_def)

lemma reachable_inv_votes: "reachable s \<Longrightarrow> inv_votes s"
  by (induction rule: reachable.induct) (auto simp: constructor_inv_votes dest: step_inv_votes)

lemma reachable_inv_elections: "reachable s \<Longrightarrow> inv_elections s"
  by (induction rule: reachable.induct)
    (auto simp: constructor_inv_elections dest: step_inv_elections)

lemma constructor_inv_tally: "inv_tally (constructor d)"
  by (simp add: inv_tally_def constructor_def internal_grantRole_def zeroState_def
      zeroElection_def)

lemma castVote_inv_tally:
  assumes "inv_tally s" "castVote s a now e p c h = Inr s'"
  shows "inv_tally s'"
proof -
  from assms(2) have s': "s' = cast_result s a now e p c h"
    by (simp add: castVote_Inr)
  show ?thesis
    unfolding inv_tally_def
  proof (intro impI allI)
    fix e'
    assume d: "distinct (voteHashes s')"
    then have d0: "distinct (voteHashes s)" and nin: "h \<notin> set (voteHashes s)"
      by (simp_all add: s' cast_result_def)
    from assms(1) d0 have ih: "totalVotes (elections s e') =
        length (filter (\<lambda>k. v_electionId (votes s k) = e') (voteHashes s))"
      by (simp add: inv_tally_def)
    show "totalVotes (elections s' e') =
        length (filter (\<lambda>k. v_electionId (votes s' k) = e') (voteHashes s'))"
    proof -
      have fv: "filter (\<lambda>k. v_electionId (votes s' k) = e') (voteHashes s) =
          filter (\<lambda>k. v_electionId (votes s k) = e') (voteHashes s)"
        by (rule filter_cong) (use nin in \<open>auto simp: s' cast_result_def\<close>)
      have vh: "voteHashes s' = voteHashes s @ [h]"
        and vn: "v_electionId (votes s' h) = e"
        and tv: "totalVotes (elections s' e') =
          totalVotes (elections s e') + (if e' = e then 1 else 0)"
        by (simp_all add: s' cast_result_def)
      show ?thesis
        using ih by (simp add: fv vh vn tv)
    qed
  qed
qed

lemma createElection_inv_tally:
  assumes "inv_tally s" "inv_elections s" "createElection s a now e t d st en = Inr s'"
  shows "inv_tally s'"
proof -
  from assms(3) have ne: "\<not> electionExists s e" and
    s': "s' = s\<lparr>elections := (elections s)(e := (elections s e)
              \<lparr>e_title := t, e_description := d, startTime := st, endTime := en,
               e_isActive := False, resultsPublished := False, totalVotes := 0,
               creator := a\<rparr>),
            electionExists := (electionExists s)(e := True),
            electionIds := electionIds s @ [e]\<rparr>"
    by (simp_all add: createElection_Inr)
  from ne assms(2) have z: "totalVotes (elections s e) = 0"
    by (simp add: inv_elections_def zeroElection_def)
  show ?thesis
    using assms(1) z by (auto simp: inv_tally_def s')
qed

lemma step_inv_tally:
  "inv_tally s \<Longrightarrow> inv_elections s \<Longrightarrow> step s a now opn = Inr s' \<Longrightarrow> inv_tally s'"
proof (cases opn)
  case (CastVote e p c h)
  then show "inv_tally s \<Longrightarrow> inv_elections s \<Longrightarrow> step s a now opn = Inr s' \<Longrightarrow> inv_tally s'"
    using castVote_inv_tally by simp
next
  case (CreateElection e t d st en)
  then show "inv_tally s \<Longrightarrow> inv_elections s \<Longrightarrow> step s a now opn = Inr s' \<Longrightarrow> inv_tally s'"
    using createElection_inv_tally by simp
qed (auto simp: step_Inr inv_tally_def)

lemma reachable_inv_tally: "reachable s \<Longrightarrow> inv_tally s"
  by (induction rule: reachable.induct)
    (auto simp: constructor_inv_tally dest: step_inv_tally reachable_inv_elections)

lemma constructor_inv_candidates: "inv_candidates (constructor d)"
  by (simp add: inv_candidates_def candidateVotesLogged_def constructor_def
      internal_grantRole_def zeroState_def zeroElection_def zeroPosition_def zeroCandidate_def)

lemma castVote_inv_candidates:
  assumes "inv_candidates s" "castVote s a now e p c h = Inr s'"
  shows "inv_candidates s'"
proof -
  from assms(2) have s': "s' = cast_result s a now e p c h"
    and act: "c_isActive (candidates (positions (elections s e) p) c)"
    by (simp_all add: castVote_Inr)
  have A: "c' \<notin> set (candidateIds (positions (elections s e') p')) \<Longrightarrow>
        candidates (positions (elections s e') p') c' = zeroCandidate" for e' p' c'
    using assms(1) by (simp add: inv_candidates_def)
  have cin: "c \<in> set (candidateIds (positions (elections s e) p))"
    by (rule ccontr) (use A[of c e p] act in \<open>simp add: zeroCandidate_def\<close>)
  have ids: "candidateIds (positions (elections s' e') p') =
      candidateIds (positions (elections s e') p')" for e' p'
    by (simp add: s' cast_result_def)
  have cand: "candidates (positions (elections s' e') p') c' =
      (if e' = e \<and> p' = p \<and> c' = c
       then (candidates (positions (elections s e) p) c)
              \<lparr>c_voteCount := c_voteCount (candidates (positions (elections s e) p) c) + 1\<rparr>
       else candidates (positions (elections s e') p') c')" for e' p' c'
    by (simp add: s' cast_result_def)
  have vh: "voteHashes s' = voteHashes s @ [h]"
    and vn: "votes s' h = \<lparr>v_electionId = e, v_positionId = p, v_candidateId = c,
        v_voter = a, v_timestamp = now, v_voteHash = h, v_isVerified = True\<rparr>"
    and vo: "\<And>k. k \<noteq> h \<Longrightarrow> votes s' k = votes s k"
    by (simp_all add: s' cast_result_def)
  show ?thesis
    unfolding inv_candidates_def
  proof (intro conjI allI impI)
    fix e' p' c'
    assume "c' \<notin> set (candidateIds (positions (elections s' e') p'))"
    then show "candidates (positions (elections s' e') p') c' = zeroCandidate"
      using A[of c' e' p'] cin by (auto simp: ids cand)
  next
    fix k assume k: "k \<in> set (voteHashes s')"
    show "v_candidateId (votes s' k) \<in> set (candidateIds
        (positions (elections s' (v_electionId (votes s' k))) (v_positionId (votes s' k))))"
    proof (cases "k = h")
      case True
      then show ?thesis using cin by (simp add: vn ids)
    next
      case False
      with k have "k \<in> set (voteHashes s)" by (simp add: vh)
      with assms(1) False show ?thesis by (simp add: inv_candidates_def ids vo)
    qed
  next
    fix e' p' c'
    assume d: "distinct (voteHashes s')"
      and cl: "count_list (candidateIds (positions (elections s' e') p')) c' \<le> 1"
    from d have d0: "distinct (voteHashes s)" and nin: "h \<notin> set (voteHashes s)"
      by (simp_all add: vh)
    from assms(1) d0 cl have ih: "c_voteCount (candidates (positions (elections s e') p') c') =
        length (candidateVotesLogged s e' p' c')"
      by (simp add: inv_candidates_def ids)
    have fv: "filter (\<lambda>k. v_electionId (votes s' k) = e' \<and> v_positionId (votes s' k) = p' \<and>
          v_candidateId (votes s' k) = c') (voteHashes s) = candidateVotesLogged s e' p' c'"
      unfolding candidateVotesLogged_def
    proof (rule filter_cong[OF refl])
      fix k assume "k \<in> set (voteHashes s)"
      with nin have "k \<noteq> h" by auto
      then show "(v_electionId (votes s' k) = e' \<and> v_positionId (votes s' k) = p' \<and>
          v_candidateId (votes s' k) = c') =
         (v_electionId (votes s k) = e' \<and> v_positionId (votes s k) = p' \<and>
          v_candidateId (votes s k) = c')"
        by (simp add: vo)
    qed
    show "c_voteCount (candidates (positions (elections s' e') p') c') =
        length (candidateVotesLogged s' e' p' c')"
      using ih by (auto simp: candidateVotesLogged_def[of s'] vh vn fv cand)
  qed
qed

lemma registerCandidate_inv_candidates:
  assumes "inv_candidates s" "registerCandidate s a e p c nm pa mf ad = Inr s'"
  shows "inv_candidates s'"
proof -
  from assms(2) have s': "s' = s\<lparr>elections := (elections s)(e := (elections s e)
        \<lparr>positions := (positions (elections s e))(p := (positions (elections s e) p)
           \<lparr>candidateIds := candidateIds (positions (elections s e) p) @ [c],
            candidates := (candidates (positions (elections s e) p))(c :=
              (candidates (positions (elections s e) p) c)
                \<lparr>c_name := nm, party := pa, manifesto := mf, candidateAddress := ad,
                 c_voteCount := 0, c_isActive := True\<rparr>)\<rparr>)\<rparr>)\<rparr>"
    by (simp add: registerCandidate_Inr)
  have ids: "candidateIds (positions (elections s' e') p') =
      (if e' = e \<and> p' = p then candidateIds (positions (elections s e) p) @ [c]
       else candidateIds (positions (elections s e') p'))" for e' p'
    by (simp add: s')
  have cand: "candidates (positions (elections s' e') p') c' =
      (if e' = e \<and> p' = p \<and> c' = c
       then (candidates (positions (elections s e) p) c)
              \<lparr>c_name := nm, party := pa, manifesto := mf, candidateAddress := ad,
               c_voteCount := 0, c_isActive := True\<rparr>
       else candidates (positions (elections s e') p') c')" for e' p' c'
    by (simp add: s')
  have vs: "votes s' = votes s" "voteHashes s' = voteHashes s"
    by (simp_all add: s')
  have lg: "candidateVotesLogged s' e' p' c' = candidateVotesLogged s e' p' c'" for e' p' c'
    by (simp add: candidateVotesLogged_def vs)
  have C: "v_candidateId (votes s k) \<in> set (candidateIds
        (positions (elections s (v_electionId (votes s k))) (v_positionId (votes s k))))"
    if "k \<in> set (voteHashes s)" for k
    using assms(1) that by (simp add: inv_candidates_def)
  show ?thesis
    unfolding inv_candidates_def
  proof (intro conjI allI impI)
    fix e' p' c'
    assume "c' \<notin> set (candidateIds (positions (elections s' e') p'))"
    then show "candidates (positions (elections s' e') p') c' = zeroCandidate"
      using assms(1) by (auto simp: ids cand inv_candidates_def split: if_splits)
  next
    fix k assume "k \<in> set (voteHashes s')"
    then show "v_candidateId (votes s' k) \<in> set (candidateIds
        (positions (elections s' (v_electionId (votes s' k))) (v_positionId (votes s' k))))"
      using C[of k] by (auto simp: vs ids)
  next
    fix e' p' c'
    assume d: "distinct (voteHashes s')"
      and cl: "count_list (candidateIds (positions (elections s' e') p')) c' \<le> 1"
    show "c_voteCount (candidates (positions (elections s' e') p') c') =
        length (candidateVotesLogged s' e' p' c')"
    proof (cases "e' = e \<and> p' = p \<and> c' = c")
      case True
      with cl have "c \<notin> set (candidateIds (positions (elections s e) p))"
        by (simp add: ids count_list_0_iff[symmetric])
      then have "candidateVotesLogged s e p c = []"
        using C by (auto simp: candidateVotesLogged_def filter_empty_conv)
      with True show ?thesis by (simp add: cand lg)
    next
      case False
      then have "count_list (candidateIds (positions (elections s e') p')) c' \<le> 1"
        using cl by (auto simp: ids split: if_splits)
      with assms(1) d have "c_voteCount (candidates (positions (elections s e') p') c') =
          length (candidateVotesLogged s e' p' c')"
        by (simp add: inv_candidates_def vs)
      with False show ?thesis by (auto simp: cand lg)
    qed
  qed
qed

lemma step_inv_candidates:
  "inv_candidates s \<Longrightarrow> step s a now opn = Inr s' \<Longrightarrow> inv_candidates s'"
proof (cases opn)
  case (CastVote e p c h)
  then show "inv_candidates s \<Longrightarrow> step s a now opn = Inr s' \<Longrightarrow> inv_candidates s'"
    using castVote_inv_candidates by simp
next
  case (RegisterCandidate e p c n pa m ad)
  then show "inv_candidates s \<Longrightarrow> step s a now opn = Inr s' \<Longrightarrow> inv_candidates s'"
    using registerCandidate_inv_candidates by simp
qed (auto simp: step_Inr inv_candidates_def candidateVotesLogged_def)

lemma reachable_inv_candidates: "reachable s \<Longrightarrow> inv_candidates s"
  by (induction rule: reachable.induct)
    (auto simp: constructor_inv_candidates dest: step_inv_candidates)

subsection \<open>Evaluating the worked election\<close>

lemmas contract_defs = registerVoter_def revokeVoter_def createElection_def addPosition_def
  registerCandidate_def startElection_def endElection_def castVote_def castVote_body_def
  publishResults_def pause_def unpause_def grantRole_def revokeRole_def renounceRole_def
  internal_pause_def internal_unpause_def internal_grantRole_def internal_revokeRole_def
  getRoleAdmin_def nonReentrant_def modifier_defs hasRole_def checked_inc_def MAX_UINT256_def
  constructor_def zeroState_def zeroElection_def zeroPosition_def zeroCandidate_def
  zeroVote_def DEFAULT_ADMIN_ROLE_def ELECTION_ADMIN_ROLE_def VOTER_ROLE_def transact_def
  verifyVote_def Let_def

lemmas scenario_defs = ballot_setup_def s_created_def s_open_def s_voted_def s_revoted_def
  s_ended_def s_published_def

lemma transact_reachable:
  "reachable s \<Longrightarrow> fst tx \<noteq> 0 \<Longrightarrow> reachable (transact s tx)"
  by (cases tx) (auto simp: transact_def split: sum.splits intro: reachable_step)

lemma run_reachable:
  "reachable s \<Longrightarrow> \<forall>tx \<in> set txs. fst tx \<noteq> 0 \<Longrightarrow> reachable (run s txs)"
  by (induction txs arbitrary: s) (auto intro: transact_reachable)

lemma s_open_reachable: "reachable s_open"
  unfolding s_open_def
  by (rule run_reachable) (auto simp: ballot_setup_def intro: reachable_init)

lemma s_voted_reachable: "reachable s_voted"
  unfolding s_voted_def by (rule transact_reachable[OF s_open_reachable]) simp

lemma s_revoted_reachable: "reachable s_revoted"
  unfolding s_revoted_def by (rule transact_reachable[OF s_voted_reachable]) simp

lemma s_open_facts:
  "registeredVoters s_open 2" "registeredVoters s_open 3" "\<not> paused s_open"
  "\<not> entered s_open" "electionExists s_open ''E1''" "e_isActive (elections s_open ''E1'')"
  "startTime (elections s_open ''E1'') = 100" "endTime (elections s_open ''E1'') = 3700"
  "c_isActive (candidates (positions (elections s_open ''E1'') ''P1'') ''C1'')"
  "c_isActive (candidates (positions (elections s_open ''E1'') ''P1'') ''C2'')"
  "hasVoted s_open = (\<lambda>_ _ _. False)" "voteHashes s_open = []"
  "totalVotes (elections s_open ''E1'') = 0"
  "c_voteCount (candidates (positions (elections s_open ''E1'') ''P1'') ''C1'') = 0"
  "p_voteCount (positions (elections s_open ''E1'') ''P1'') ''C1'' = 0"
  "hasRole s_open ELECTION_ADMIN_ROLE 1"
  by (simp_all add: scenario_defs contract_defs)

lemma s_voted_eq: "s_voted = cast_result s_open 2 110 ''E1'' ''P1'' ''C1'' 0xAA"
proof -
  have "castVote s_open 2 110 ''E1'' ''P1'' ''C1'' 0xAA =
      Inr (cast_result s_open 2 110 ''E1'' ''P1'' ''C1'' 0xAA)"
    by (simp add: castVote_Inr s_open_facts MAX_UINT256_def)
  then show ?thesis by (simp add: s_voted_def transact_def)
qed

lemma castVote_Inl_transact:
  "castVote s a now e p c h = Inl err \<Longrightarrow> transact s (a, now, CastVote e p c h) = s"
  by (simp add: transact_def)

lemma s_open_paused_facts:
  "registeredVoters s_open_paused 2" "paused s_open_paused" "\<not> entered s_open_paused"
  "\<not> registeredVoters s_open_paused 7"
  by (simp_all add: s_open_paused_def scenario_defs contract_defs)

lemma s_created_facts:
  "hasRole s_created ELECTION_ADMIN_ROLE 1" "electionExists s_created ''E1''"
  "\<not> e_isActive (elections s_created ''E1'')"
  "\<not> resultsPublished (elections s_created ''E1'')"
  "positionIds (elections s_created ''E1'') = []"
  by (simp_all add: scenario_defs contract_defs)

lemma s_voted_facts:
  "hasRole s_voted ELECTION_ADMIN_ROLE 1" "electionExists s_voted ''E1''"
  "e_isActive (elections s_voted ''E1'')" "registeredVoters s_voted 2"
  "registeredVoters s_voted 3" "\<not> paused s_voted" "\<not> entered s_voted"
  "startTime (elections s_voted ''E1'') = 100" "endTime (elections s_voted ''E1'') = 3700"
  "hasVoted s_voted 2 ''E1'' ''P1''" "\<not> hasVoted s_voted 3 ''E1'' ''P1''"
  "positionIds (elections s_voted ''E1'') = [''P1'']"
  "c_isActive (candidates (positions (elections s_voted ''E1'') ''P1'') ''C2'')"
  "totalVotes (elections s_voted ''E1'') = 1"
  "c_voteCount (candidates (positions (elections s_voted ''E1'') ''P1'') ''C2'') = 0"
  "p_voteCount (positions (elections s_voted ''E1'') ''P1'') ''C2'' = 0"
  "voteHashes s_voted = [0xAA]"
  by (simp_all add: s_voted_eq cast_result_def s_open_facts)
    (simp_all add: scenario_defs contract_defs)

lemma s_ended_eq:
  "s_ended = s_voted\<lparr>elections := (elections s_voted)(''E1'' :=
     (elections s_voted ''E1'')\<lparr>e_isActive := False\<rparr>)\<rparr>"
proof -
  have "endElection s_voted 1 ''E1'' = Inr (s_voted\<lparr>elections := (elections s_voted)(''E1'' :=
     (elections s_voted ''E1'')\<lparr>e_isActive := False\<rparr>)\<rparr>)"
    by (simp add: endElection_Inr s_voted_facts)
  then show ?thesis by (simp add: s_ended_def transact_def)
qed

lemma s_ended_facts:
  "hasRole s_ended ELECTION_ADMIN_ROLE 1" "electionExists s_ended ''E1''"
  "\<not> e_isActive (elections s_ended ''E1'')" "\<not> resultsPublished (elections s_ended ''E1'')"
  "startTime (elections s_ended ''E1'') = 100"
  "positionIds (elections s_ended ''E1'') = [''P1'']"
  "registeredVoters s_ended 2" "\<not> paused s_ended" "\<not> entered s_ended"
  "hasVoted s_ended 2 ''E1'' ''P1''"
  by (simp_all add: s_ended_eq s_voted_facts hasRole_def)
    (simp_all add: s_voted_eq cast_result_def scenario_defs contract_defs)

lemma s_published_eq:
  "s_published = s_ended\<lparr>elections := (elections s_ended)(''E1'' :=
     (elections s_ended ''E1'')\<lparr>resultsPublished := True\<rparr>)\<rparr>"
proof -
  have "publishResults s_ended 1 ''E1'' = Inr (s_ended\<lparr>elections := (elections s_ended)(''E1'' :=
     (elections s_ended ''E1'')\<lparr>resultsPublished := True\<rparr>)\<rparr>)"
    by (simp add: publishResults_Inr s_ended_facts)
  then show ?thesis by (simp add: s_published_def transact_def)
qed

lemma s_published_facts:
  "hasRole s_published ELECTION_ADMIN_ROLE 1" "electionExists s_published ''E1''"
  "\<not> e_isActive (elections s_published ''E1'')" "resultsPublished (elections s_published ''E1'')"
  "startTime (elections s_published ''E1'') = 100"
  "positionIds (elections s_published ''E1'') = [''P1'']"
  using s_ended_facts by (simp_all add: s_published_eq hasRole_def)

lemma s_revoted_eq: "s_revoted = cast_result s_voted 3 120 ''E1'' ''P1'' ''C2'' 0xAA"
proof -
  have "castVote s_voted 3 120 ''E1'' ''P1'' ''C2'' 0xAA =
      Inr (cast_result s_voted 3 120 ''E1'' ''P1'' ''C2'' 0xAA)"
    by (simp add: castVote_Inr s_voted_facts MAX_UINT256_def)
  then show ?thesis by (simp add: s_revoted_def transact_def)
qed

lemma s_voted_vote:
  "votes s_voted 0xAA = \<lparr>v_electionId = ''E1'', v_positionId = ''P1'', v_candidateId = ''C1'',
     v_voter = 2, v_timestamp = 110, v_voteHash = 0xAA, v_isVerified = True\<rparr>"
  by (simp add: s_voted_eq cast_result_def)

lemma s_revoted_vote:
  "votes s_revoted 0xAA = \<lparr>v_electionId = ''E1'', v_positionId = ''P1'', v_candidateId = ''C2'',
     v_voter = 3, v_timestamp = 120, v_voteHash = 0xAA, v_isVerified = True\<rparr>"
  by (simp add: s_revoted_eq cast_result_def)

subsection \<open>Lookups, logged hashes and tallies\<close>

lemma verifyVote_absent:
  "inv_votes s \<Longrightarrow> k \<notin> set (voteHashes s) \<Longrightarrow> verifyVote s k = Inl VoteNotFound"
  by (simp add: inv_votes_def verifyVote_def zeroVote_def Let_def)

lemma verifyVote_present:
  "inv_votes s \<Longrightarrow> k \<in> set (voteHashes s) \<Longrightarrow> \<not> isl (verifyVote s k)"
  by (simp add: inv_votes_def verifyVote_def Let_def)

lemma step_votes_other:
  "step s a now opn = Inr s' \<Longrightarrow> \<not> casts_hash opn k \<Longrightarrow> votes s' k = votes s k"
  by (cases opn) (auto simp: step_Inr cast_result_def)



lemma electionVoteRecords_distinct:
  "distinct (voteHashes s) \<Longrightarrow>
     length (electionVoteRecords s e) =
     length (filter (\<lambda>h. v_electionId (votes s h) = e) (voteHashes s))"
  by (simp add: electionVoteRecords_def storedVotes_def filter_map comp_def
      distinct_remdups_id)

lemma candidateVoteRecords_distinct:
  "distinct (voteHashes s) \<Longrightarrow>
     length (candidateVoteRecords s e p c) = length (candidateVotesLogged s e p c)"
  by (simp add: candidateVoteRecords_def candidateVotesLogged_def storedVotes_def filter_map
      comp_def distinct_remdups_id)

lemma step_totalVotes:
  "inv_elections s \<Longrightarrow> step s a now opn = Inr s' \<Longrightarrow> \<not> is_castVote opn \<Longrightarrow>
     totalVotes (elections s' e) = totalVotes (elections s e)"
  by (cases opn) (auto simp: step_Inr inv_elections_def zeroElection_def)

section \<open>The claims\<close>

subsection \<open>C1: castVote and a hash that is already stored\<close>

text \<open>
  C1, as amended. \<^verbatim>\<open>castVote\<close> does not look the hash up: when the earlier guards pass, it
  rejects the hash only when it is zero (error \<open>DuplicateVoteHash\<close>, the contract's
  "Invalid vote hash"), and storage is then unchanged. A call with a non-zero hash
  succeeds (no counter being at its maximum) whether or not a record is already stored
  under that hash, and the record under the hash is then the new one; the records under
  every other hash are left as they were.
\<close>

theorem castVote_hash_check:
  assumes "registeredVoters s a" "\<not> entered s" "\<not> paused s" "electionExists s e"
    "e_isActive (elections s e)" "startTime (elections s e) \<le> now"
    "now \<le> endTime (elections s e)" "\<not> hasVoted s a e p"
    "c_isActive (candidateOf s e p c)"
  shows "(h = 0 \<longrightarrow> castVote s a now e p c h = Inl DuplicateVoteHash \<and>
            transact s (a, now, CastVote e p c h) = s) \<and>
         (h \<noteq> 0 \<and> p_voteCount (positions (elections s e) p) c < MAX_UINT256 \<and>
            c_voteCount (candidateOf s e p c) < MAX_UINT256 \<and>
            totalVotes (elections s e) < MAX_UINT256 \<longrightarrow>
            (\<exists>s'. castVote s a now e p c h = Inr s' \<and>
               votes s' h = \<lparr>v_electionId = e, v_positionId = p, v_candidateId = c,
                  v_voter = a, v_timestamp = now, v_voteHash = h, v_isVerified = True\<rparr> \<and>
               (\<forall>k. k \<noteq> h \<longrightarrow> votes s' k = votes s k)))"
proof (intro conjI impI)
  assume z: "h = 0"
  show "castVote s a now e p c h = Inl DuplicateVoteHash"
    using assms z
    by (simp add: castVote_def castVote_body_def nonReentrant_def modifier_defs
        candidateOf_def Let_def)
  then show "transact s (a, now, CastVote e p c h) = s"
    by (rule castVote_Inl_transact)
next
  assume "h \<noteq> 0 \<and> p_voteCount (positions (elections s e) p) c < MAX_UINT256 \<and>
      c_voteCount (candidateOf s e p c) < MAX_UINT256 \<and>
      totalVotes (elections s e) < MAX_UINT256"
  with assms have "castVote s a now e p c h = Inr (cast_result s a now e p c h)"
    by (simp add: castVote_Inr candidateOf_def)
  then show "\<exists>s'. castVote s a now e p c h = Inr s' \<and>
      votes s' h = \<lparr>v_electionId = e, v_positionId = p, v_candidateId = c,
         v_voter = a, v_timestamp = now, v_voteHash = h, v_isVerified = True\<rparr> \<and>
      (\<forall>k. k \<noteq> h \<longrightarrow> votes s' k = votes s k)"
    by (simp add: cast_result_def)
qed

theorem castVote_hash_check_witness:
  "voteStored s_voted 0xAA \<and>
   \<not> isl (castVote s_voted 3 120 ''E1'' ''P1'' ''C2'' 0xAA) \<and>
   castVote s_voted 3 120 ''E1'' ''P1'' ''C2'' 0 = Inl DuplicateVoteHash"
  using castVote_hash_check[of s_voted 3 "''E1''" 120 "''P1''" "''C2''" "0xAA"]
    castVote_hash_check[of s_voted 3 "''E1''" 120 "''P1''" "''C2''" 0]
  by (auto simp: s_voted_facts candidateOf_def MAX_UINT256_def voteStored_def s_voted_vote)

text \<open>
  C1 as stated has the second use of a hash fail with \<open>DuplicateVoteHash\<close>. Voter 2 has
  cast hash \<open>0xAA\<close> for \<open>C1\<close>; voter 3 casts the same hash for \<open>C2\<close>: the call
  succeeds and the record under \<open>0xAA\<close> is now voter 3's.
\<close>

theorem reused_hash_counterexample:
  "voteStored s_voted 0xAA \<and> v_voter (votes s_voted 0xAA) = 2 \<and>
   castVote s_voted 3 120 ''E1'' ''P1'' ''C2'' 0xAA \<noteq> Inl DuplicateVoteHash \<and>
   castVote s_voted 3 120 ''E1'' ''P1'' ''C2'' 0xAA = Inr s_revoted \<and>
   v_voter (votes s_revoted 0xAA) = 3 \<and> v_candidateId (votes s_revoted 0xAA) = ''C2''"
proof -
  have c: "castVote s_voted 3 120 ''E1'' ''P1'' ''C2'' 0xAA = Inr s_revoted"
    by (simp add: castVote_Inr s_voted_facts MAX_UINT256_def s_revoted_eq)
  show ?thesis
    by (simp add: c voteStored_def s_voted_vote s_revoted_vote)
qed

subsection \<open>C2: one vote per voter and position\<close>



subsection \<open>C3: the election's flags over time\<close>

text \<open>
  C3, as amended. The contract keeps two flags per election, \<^verbatim>\<open>isActive\<close> and
  \<^verbatim>\<open>resultsPublished\<close>. An existing election stays existing and
  \<^verbatim>\<open>resultsPublished\<close>, once set, is never cleared by any call. \<^verbatim>\<open>isActive\<close> changes
  only by \<^verbatim>\<open>startElection\<close> and \<^verbatim>\<open>endElection\<close> of that election, and it is not
  monotonic: after a successful \<^verbatim>\<open>endElection\<close> the election is inactive, and a later
  \<^verbatim>\<open>startElection\<close> by the same administrator, at or after the start time and with a
  position present, succeeds and makes it active again. The same holds after a successful
  \<^verbatim>\<open>publishResults\<close>: the election is started again with its results still
  marked published.
\<close>

theorem election_flags:
  "(step s a now opn = Inr s' \<and> electionExists s e \<longrightarrow>
      electionExists s' e \<and>
      (resultsPublished (elections s e) \<longrightarrow> resultsPublished (elections s' e)) \<and>
      (e_isActive (elections s' e) \<noteq> e_isActive (elections s e) \<longrightarrow>
         opn = StartElection e \<or> opn = EndElection e)) \<and>
   (endElection s a e = Inr t \<and> startTime (elections s e) \<le> later \<and>
      positionIds (elections s e) \<noteq> [] \<longrightarrow>
      \<not> e_isActive (elections t e) \<and>
      (\<exists>u. startElection t a later e = Inr u \<and> e_isActive (elections u e))) \<and>
   (publishResults s a e = Inr w \<and> startTime (elections s e) \<le> later \<and>
      positionIds (elections s e) \<noteq> [] \<longrightarrow>
      resultsPublished (elections w e) \<and> \<not> e_isActive (elections w e) \<and>
      (\<exists>u. startElection w a later e = Inr u \<and> e_isActive (elections u e) \<and>
           resultsPublished (elections u e)))"
proof -
  have 1: "electionExists s' e \<and>
      (resultsPublished (elections s e) \<longrightarrow> resultsPublished (elections s' e)) \<and>
      (e_isActive (elections s' e) \<noteq> e_isActive (elections s e) \<longrightarrow>
         opn = StartElection e \<or> opn = EndElection e)"
    if "step s a now opn = Inr s'" "electionExists s e"
    using that by (cases opn) (auto simp: step_Inr cast_result_def split: if_splits)
  have 2: "\<not> e_isActive (elections t e) \<and>
      (\<exists>u. startElection t a later e = Inr u \<and> e_isActive (elections u e))"
    if "endElection s a e = Inr t" "startTime (elections s e) \<le> later"
      "positionIds (elections s e) \<noteq> []"
    using that by (auto simp: endElection_Inr startElection_Inr hasRole_def)
  have 3: "resultsPublished (elections w e) \<and> \<not> e_isActive (elections w e) \<and>
      (\<exists>u. startElection w a later e = Inr u \<and> e_isActive (elections u e) \<and>
           resultsPublished (elections u e))"
    if "publishResults s a e = Inr w" "startTime (elections s e) \<le> later"
      "positionIds (elections s e) \<noteq> []"
    using that by (auto simp: publishResults_Inr startElection_Inr hasRole_def)
  from 1 2 3 show ?thesis by blast
qed

theorem election_flags_witness:
  "step s_voted 1 200 (EndElection ''E1'') = Inr s_ended \<and>
   electionExists s_voted ''E1'' \<and> electionExists s_ended ''E1'' \<and>
   startTime (elections s_voted ''E1'') \<le> 300 \<and>
   positionIds (elections s_voted ''E1'') \<noteq> [] \<and>
   \<not> e_isActive (elections s_ended ''E1'') \<and>
   \<not> isl (startElection s_ended 1 300 ''E1'') \<and>
   publishResults s_ended 1 ''E1'' = Inr s_published \<and>
   startTime (elections s_ended ''E1'') \<le> 300 \<and>
   positionIds (elections s_ended ''E1'') \<noteq> [] \<and>
   resultsPublished (elections s_published ''E1'') \<and>
   \<not> isl (startElection s_published 1 300 ''E1'')"
proof -
  have e: "endElection s_voted 1 ''E1'' = Inr s_ended"
    by (simp add: endElection_Inr s_voted_facts s_ended_eq)
  have p: "publishResults s_ended 1 ''E1'' = Inr s_published"
    by (simp add: publishResults_Inr s_ended_facts s_published_eq)
  note A = election_flags[where s = s_voted and a = 1 and now = 200 and
      opn = "EndElection ''E1''" and s' = s_ended and e = "''E1''" and t = s_ended and
      w = s_published and later = 300]
  note B = election_flags[where s = s_ended and a = 1 and now = 210 and
      opn = "PublishResults ''E1''" and s' = s_published and e = "''E1''" and
      t = s_published and w = s_published and later = 300]
  have x: "electionExists s_ended ''E1''"
    using A e by (simp add: s_voted_facts)
  have a: "\<not> isl (startElection s_ended 1 300 ''E1'')"
    using A e by (auto simp: s_voted_facts)
  have b: "resultsPublished (elections s_published ''E1'')"
    "\<not> isl (startElection s_published 1 300 ''E1'')"
    using B p by (auto simp: s_ended_facts)
  show ?thesis
    using a b e p x by (simp add: s_voted_facts s_ended_facts)
qed

text \<open>
  C3 as stated has no way back to an earlier state. Election \<open>E1\<close> is ended, and
  \<^verbatim>\<open>startElection\<close> makes it active again; the same happens after its results were
  published.
\<close>

theorem restart_after_end_counterexample:
  "step s_voted 1 200 (EndElection ''E1'') = Inr s_ended \<and>
   \<not> e_isActive (elections s_ended ''E1'') \<and>
   e_isActive (elections (transact s_ended (1, 300, StartElection ''E1'')) ''E1'') \<and>
   resultsPublished (elections s_published ''E1'') \<and>
   \<not> e_isActive (elections s_published ''E1'') \<and>
   e_isActive (elections (transact s_published (1, 300, StartElection ''E1'')) ''E1'')"
  by (simp add: endElection_Inr s_voted_facts s_ended_eq[symmetric] s_ended_facts
      s_published_facts startElection_def modifier_defs transact_def Let_def)

subsection \<open>C4: tallies and stored records\<close>

text \<open>
  C4, as amended. In every reachable state in which no hash was cast twice,
  \<^verbatim>\<open>totalVotes\<close> of an election is the number of stored vote records of that
  election, and \<^verbatim>\<open>voteCount\<close> of a candidate whose id was registered at most once
  in its position is the number of stored vote records that name the candidate. In every
  reachable state a successful \<^verbatim>\<open>castVote\<close> adds exactly one to
  \<^verbatim>\<open>totalVotes\<close> of its election and to \<^verbatim>\<open>voteCount\<close> of its
  candidate, changes no other election's \<^verbatim>\<open>totalVotes\<close> and no other
  candidate's \<^verbatim>\<open>voteCount\<close>, and no call other than \<^verbatim>\<open>castVote\<close>
  changes any \<^verbatim>\<open>totalVotes\<close>.
\<close>

theorem tally_counts:
  assumes "reachable s"
  shows "(distinct (voteHashes s) \<longrightarrow>
            totalVotes (elections s e) = length (electionVoteRecords s e) \<and>
            (count_list (candidateIds (positions (elections s e) p)) c \<le> 1 \<longrightarrow>
               c_voteCount (candidateOf s e p c) = length (candidateVoteRecords s e p c))) \<and>
         (castVote s a now e' p' c' h = Inr s' \<longrightarrow>
            totalVotes (elections s' e) =
              totalVotes (elections s e) + (if e = e' then 1 else 0) \<and>
            c_voteCount (candidateOf s' e' p' c') = c_voteCount (candidateOf s e' p' c') + 1 \<and>
            (\<forall>e2 p2 c2. (e2, p2, c2) \<noteq> (e', p', c') \<longrightarrow>
               c_voteCount (candidateOf s' e2 p2 c2) = c_voteCount (candidateOf s e2 p2 c2))) \<and>
         (step s a now opn = Inr s' \<and> \<not> is_castVote opn \<longrightarrow>
            totalVotes (elections s' e) = totalVotes (elections s e))"
proof -
  have 1: "totalVotes (elections s e) = length (electionVoteRecords s e)"
    if "distinct (voteHashes s)"
    using that reachable_inv_tally[OF assms]
    by (simp add: electionVoteRecords_distinct inv_tally_def)
  have 2: "c_voteCount (candidateOf s e p c) = length (candidateVoteRecords s e p c)"
    if "distinct (voteHashes s)"
      "count_list (candidateIds (positions (elections s e) p)) c \<le> 1"
    using that reachable_inv_candidates[OF assms]
    by (simp add: candidateVoteRecords_distinct inv_candidates_def candidateOf_def)
  have 3: "totalVotes (elections s' e) = totalVotes (elections s e) + (if e = e' then 1 else 0)"
    "c_voteCount (candidateOf s' e' p' c') = c_voteCount (candidateOf s e' p' c') + 1"
    "\<forall>e2 p2 c2. (e2, p2, c2) \<noteq> (e', p', c') \<longrightarrow>
       c_voteCount (candidateOf s' e2 p2 c2) = c_voteCount (candidateOf s e2 p2 c2)"
    if "castVote s a now e' p' c' h = Inr s'"
    using that by (auto simp: castVote_Inr cast_result_def candidateOf_def)
  have 4: "totalVotes (elections s' e) = totalVotes (elections s e)"
    if "step s a now opn = Inr s'" "\<not> is_castVote opn"
    using that reachable_inv_elections[OF assms] by (simp add: step_totalVotes)
  from 1 2 3 4 show ?thesis by blast
qed

theorem tally_counts_witness:
  "reachable s_voted \<and> distinct (voteHashes s_voted) \<and>
   totalVotes (elections s_voted ''E1'') = length (electionVoteRecords s_voted ''E1'') \<and>
   count_list (candidateIds (positions (elections s_voted ''E1'') ''P1'')) ''C1'' \<le> 1 \<and>
   c_voteCount (candidateOf s_voted ''E1'' ''P1'' ''C1'') =
     length (candidateVoteRecords s_voted ''E1'' ''P1'' ''C1'') \<and>
   castVote s_voted 3 120 ''E1'' ''P1'' ''C2'' 0xAA = Inr s_revoted \<and>
   totalVotes (elections s_revoted ''E1'') = totalVotes (elections s_voted ''E1'') + 1 \<and>
   step s_voted 1 200 (EndElection ''E1'') = Inr s_ended \<and>
   totalVotes (elections s_ended ''E1'') = totalVotes (elections s_voted ''E1'')"
proof -
  have c: "castVote s_voted 3 120 ''E1'' ''P1'' ''C2'' 0xAA = Inr s_revoted"
    by (simp add: castVote_Inr s_voted_facts MAX_UINT256_def s_revoted_eq)
  have e: "step s_voted 1 200 (EndElection ''E1'') = Inr s_ended"
    by (simp add: endElection_Inr s_voted_facts s_ended_eq)
  have i: "candidateIds (positions (elections s_voted ''E1'') ''P1'') = [''C1'', ''C2'']"
    by (simp add: s_voted_eq cast_result_def) (simp add: scenario_defs contract_defs)
  show ?thesis
    using tally_counts[OF s_voted_reachable, where e = "''E1''" and p = "''P1''" and
        c = "''C1''" and a = 3 and now = 120 and e' = "''E1''" and p' = "''P1''" and
        c' = "''C2''" and h = "0xAA" and s' = s_revoted]
      tally_counts[OF s_voted_reachable, where e = "''E1''" and a = 1 and now = 200 and
        opn = "EndElection ''E1''" and s' = s_ended]
      c e i s_voted_reachable
    by (simp add: s_voted_facts)
qed

text \<open>
  C4 as stated equates the counters with the number of stored records in every reachable
  state. After voters 2 and 3 have cast the same hash, \<^verbatim>\<open>totalVotes\<close> is 2 and one
  record is stored; candidate \<open>C1\<close> has \<^verbatim>\<open>voteCount\<close> 1 and no stored record names
  it.
\<close>

theorem reused_hash_tally_counterexample:
  "reachable s_revoted \<and>
   totalVotes (elections s_revoted ''E1'') = 2 \<and>
   length (electionVoteRecords s_revoted ''E1'') = 1 \<and>
   c_voteCount (candidateOf s_revoted ''E1'' ''P1'' ''C1'') = 1 \<and>
   length (candidateVoteRecords s_revoted ''E1'' ''P1'' ''C1'') = 0"
proof -
  have vh: "voteHashes s_revoted = [0xAA, 0xAA]"
    by (simp add: s_revoted_eq cast_result_def s_voted_facts)
  have tv: "totalVotes (elections s_revoted ''E1'') = 2"
    by (simp add: s_revoted_eq cast_result_def s_voted_facts)
  have cv: "c_voteCount (candidateOf s_revoted ''E1'' ''P1'' ''C1'') = 1"
    by (simp add: candidateOf_def s_revoted_eq s_voted_eq cast_result_def s_open_facts)
  show ?thesis
    by (simp add: s_revoted_reachable tv cv electionVoteRecords_def candidateVoteRecords_def
        storedVotes_def vh s_revoted_vote)
qed

subsection \<open>C5: publishResults\<close>

text \<open>
  C5, as amended. \<^verbatim>\<open>publishResults\<close> succeeds exactly when the caller is an election
  administrator, the election exists, is not active and its results are not published;
  the contract has no flag that tells an election that was ended from one that was never
  started, so both qualify. It fails with \<open>ElectionStillActive\<close> on an active
  election and with \<open>AlreadyPublished\<close> on an inactive one whose results are
  published, as on a second call. A successful call sets \<^verbatim>\<open>resultsPublished\<close> and
  changes no tally, vote record or \<^verbatim>\<open>hasVoted\<close> entry.
\<close>

theorem publishResults_gate:
  "((\<exists>s'. publishResults s a e = Inr s') \<longleftrightarrow>
      hasRole s ELECTION_ADMIN_ROLE a \<and> electionExists s e \<and>
      \<not> e_isActive (elections s e) \<and> \<not> resultsPublished (elections s e)) \<and>
   (hasRole s ELECTION_ADMIN_ROLE a \<and> electionExists s e \<and> e_isActive (elections s e) \<longrightarrow>
      publishResults s a e = Inl ElectionStillActive) \<and>
   (hasRole s ELECTION_ADMIN_ROLE a \<and> electionExists s e \<and> \<not> e_isActive (elections s e) \<and>
      resultsPublished (elections s e) \<longrightarrow>
      publishResults s a e = Inl AlreadyPublished) \<and>
   (publishResults s a e = Inr s' \<longrightarrow>
      resultsPublished (elections s' e) \<and>
      publishResults s' a e = Inl AlreadyPublished \<and>
      votes s' = votes s \<and> voteHashes s' = voteHashes s \<and> hasVoted s' = hasVoted s \<and>
      (\<forall>e'. totalVotes (elections s' e') = totalVotes (elections s e') \<and>
            positions (elections s' e') = positions (elections s e')))"
proof (intro conjI impI)
  show "(\<exists>s'. publishResults s a e = Inr s') \<longleftrightarrow>
      hasRole s ELECTION_ADMIN_ROLE a \<and> electionExists s e \<and>
      \<not> e_isActive (elections s e) \<and> \<not> resultsPublished (elections s e)"
    by (simp add: publishResults_Inr)
next
  assume "hasRole s ELECTION_ADMIN_ROLE a \<and> electionExists s e \<and> e_isActive (elections s e)"
  then show "publishResults s a e = Inl ElectionStillActive"
    by (simp add: publishResults_def modifier_defs Let_def)
next
  assume "hasRole s ELECTION_ADMIN_ROLE a \<and> electionExists s e \<and>
      \<not> e_isActive (elections s e) \<and> resultsPublished (elections s e)"
  then show "publishResults s a e = Inl AlreadyPublished"
    by (simp add: publishResults_def modifier_defs Let_def)
next
  assume ok: "publishResults s a e = Inr s'"
  then have s': "s' = s\<lparr>elections := (elections s)(e :=
      (elections s e)\<lparr>resultsPublished := True\<rparr>)\<rparr>"
    and g: "hasRole s ELECTION_ADMIN_ROLE a" "electionExists s e"
      "\<not> e_isActive (elections s e)"
    by (simp_all add: publishResults_Inr)
  show "resultsPublished (elections s' e)" "votes s' = votes s"
    "voteHashes s' = voteHashes s" "hasVoted s' = hasVoted s"
    "\<forall>e'. totalVotes (elections s' e') = totalVotes (elections s e') \<and>
          positions (elections s' e') = positions (elections s e')"
    by (simp_all add: s')
  show "publishResults s' a e = Inl AlreadyPublished"
    using g by (simp add: s' publishResults_def modifier_defs hasRole_def Let_def)
qed

theorem publishResults_gate_witness:
  "e_isActive (elections s_open ''E1'') \<and>
   publishResults s_open 1 ''E1'' = Inl ElectionStillActive \<and>
   \<not> e_isActive (elections s_ended ''E1'') \<and>
   \<not> resultsPublished (elections s_ended ''E1'') \<and>
   publishResults s_ended 1 ''E1'' = Inr s_published \<and>
   publishResults s_published 1 ''E1'' = Inl AlreadyPublished \<and>
   totalVotes (elections s_published ''E1'') = totalVotes (elections s_ended ''E1'')"
proof -
  have p: "publishResults s_ended 1 ''E1'' = Inr s_published"
    by (simp add: publishResults_Inr s_ended_facts s_published_eq)
  show ?thesis
    using publishResults_gate[of s_open 1 "''E1''"]
      publishResults_gate[of s_ended 1 "''E1''" s_published] p
    by (simp add: s_open_facts s_ended_facts)
qed

text \<open>
  C5 as stated has \<^verbatim>\<open>publishResults\<close> fail with \<open>ElectionStillActive\<close> on an election
  that was never started. Election \<open>E1\<close> has just been created, with no position:
  \<^verbatim>\<open>publishResults\<close> succeeds.
\<close>

theorem publish_never_started_counterexample:
  "\<not> e_isActive (elections s_created ''E1'') \<and>
   positionIds (elections s_created ''E1'') = [] \<and>
   publishResults s_created 1 ''E1'' \<noteq> Inl ElectionStillActive \<and>
   publishResults s_created 1 ''E1'' =
     Inr (s_created\<lparr>elections := (elections s_created)(''E1'' :=
            (elections s_created ''E1'')\<lparr>resultsPublished := True\<rparr>)\<rparr>)"
  by (simp add: s_created_facts publishResults_def modifier_defs Let_def)

subsection \<open>C6: addPosition and registerCandidate\<close>

text \<open>
  C6, as amended. For an election administrator and an existing election: while the
  election is active, \<^verbatim>\<open>addPosition\<close> and \<^verbatim>\<open>registerCandidate\<close> fail with
  \<open>ElectionNotEditable\<close>; while it is not active (never started, ended, or with results
  published), \<^verbatim>\<open>addPosition\<close> succeeds exactly when \<^verbatim>\<open>maxVotesPerVoter\<close> and
  \<^verbatim>\<open>availableSeats\<close> are at least 1, and \<^verbatim>\<open>registerCandidate\<close> exactly when the
  candidate address is not zero.
\<close>

theorem edit_gate:
  assumes "hasRole s ELECTION_ADMIN_ROLE a" "electionExists s e"
  shows "(e_isActive (elections s e) \<longrightarrow>
            addPosition s a e p t d m n = Inl ElectionNotEditable \<and>
            registerCandidate s a e p c nm pa mf ad = Inl ElectionNotEditable) \<and>
         (\<not> e_isActive (elections s e) \<longrightarrow>
            ((\<exists>s'. addPosition s a e p t d m n = Inr s') \<longleftrightarrow> 1 \<le> m \<and> 1 \<le> n) \<and>
            ((\<exists>s'. registerCandidate s a e p c nm pa mf ad = Inr s') \<longleftrightarrow> ad \<noteq> 0))"
  using assms
  by (auto simp: addPosition_Inr registerCandidate_Inr)
    (simp_all add: addPosition_def registerCandidate_def modifier_defs)

theorem edit_gate_witness:
  "hasRole s_open ELECTION_ADMIN_ROLE 1 \<and> electionExists s_open ''E1'' \<and>
   e_isActive (elections s_open ''E1'') \<and>
   addPosition s_open 1 ''E1'' ''P2'' ''Treasurer'' [] 1 1 = Inl ElectionNotEditable \<and>
   registerCandidate s_open 1 ''E1'' ''P1'' ''C3'' ''Carol'' [] [] 0x13 =
     Inl ElectionNotEditable \<and>
   hasRole s_ended ELECTION_ADMIN_ROLE 1 \<and> electionExists s_ended ''E1'' \<and>
   \<not> e_isActive (elections s_ended ''E1'') \<and>
   \<not> isl (addPosition s_ended 1 ''E1'' ''P2'' ''Treasurer'' [] 1 1) \<and>
   \<not> isl (registerCandidate s_ended 1 ''E1'' ''P2'' ''C3'' ''Carol'' [] [] 0x13)"
  using edit_gate[of s_open 1 "''E1''" "''P2''" "''Treasurer''" "[]" 1 1]
    edit_gate[of s_open 1 "''E1''" "''P1''" "[]" "[]" 1 1 "''C3''" "''Carol''" "[]" "[]" "0x13"]
    edit_gate[of s_ended 1 "''E1''" "''P2''" "''Treasurer''" "[]" 1 1 "''C3''" "''Carol''"
      "[]" "[]" "0x13"]
  by (auto simp: s_open_facts s_ended_facts)

text \<open>
  C6 as stated has both calls fail on an ended or published election. The scenario of the
  specification: \<open>E1\<close> is ended and its results are published; \<^verbatim>\<open>addPosition\<close> of
  \<open>P2\<close> succeeds.
\<close>

theorem addPosition_after_publish_counterexample:
  "resultsPublished (elections s_published ''E1'') \<and>
   addPosition s_published 1 ''E1'' ''P2'' ''Treasurer'' [] 1 1 \<noteq> Inl ElectionNotEditable \<and>
   positionIds (elections (transact s_published
       (1, 220, AddPosition ''E1'' ''P2'' ''Treasurer'' [] 1 1)) ''E1'') = [''P1'', ''P2'']"
  by (simp add: s_published_facts addPosition_def modifier_defs transact_def Let_def)

subsection \<open>C7: the order of the guards of castVote\<close>

text \<open>
  C7, as amended. \<^verbatim>\<open>castVote\<close> reports the error of the earliest failing guard
  in the order the source lists its modifiers and requires: (1) the caller is a registered
  voter, else \<open>Unauthorized\<close>; (2) the system is not paused, else \<open>SystemPaused\<close>;
  (3) the election exists, else \<open>ElectionNotFound\<close>; (4) the election is active and
  the time lies in its window, else \<open>VotingNotOpen\<close>; (5) the caller has not voted on
  the position, else \<open>AlreadyVoted\<close>; (6) the candidate is active, else
  \<open>InvalidCandidate\<close>; (7) the hash is not zero, else \<open>DuplicateVoteHash\<close>. When
  no guard fails the call succeeds, unless a counter is at its maximum. In particular a
  caller who is not registered gets \<open>Unauthorized\<close> also while the system is paused.
\<close>

theorem castVote_guard_order:
  assumes "\<not> entered s"
  shows "(first_failure (castVote_guards s a now e p c h) = Some err \<longrightarrow>
            castVote s a now e p c h = Inl err) \<and>
         (first_failure (castVote_guards s a now e p c h) = None \<longrightarrow>
            castVote s a now e p c h = Inr (cast_result s a now e p c h) \<or>
            castVote s a now e p c h = Inl ArithmeticOverflow) \<and>
         (paused s \<and> \<not> registeredVoters s a \<longrightarrow>
            castVote s a now e p c h = Inl Unauthorized)"
proof (intro conjI impI)
  assume "first_failure (castVote_guards s a now e p c h) = Some err"
  then show "castVote s a now e p c h = Inl err"
    using assms
    by (auto simp: castVote_guards_def candidateOf_def castVote_def castVote_body_def
        nonReentrant_def modifier_defs require_def Let_def split: if_splits)
next
  assume "first_failure (castVote_guards s a now e p c h) = None"
  then have ok: "registeredVoters s a" "\<not> paused s" "electionExists s e"
    "e_isActive (elections s e)" "startTime (elections s e) \<le> now"
    "now \<le> endTime (elections s e)" "\<not> hasVoted s a e p"
    "c_isActive (candidates (positions (elections s e) p) c)" "h \<noteq> 0"
    by (auto simp: castVote_guards_def candidateOf_def split: if_splits)
  show "castVote s a now e p c h = Inr (cast_result s a now e p c h) \<or>
      castVote s a now e p c h = Inl ArithmeticOverflow"
  proof (cases "p_voteCount (positions (elections s e) p) c < MAX_UINT256 \<and>
      c_voteCount (candidates (positions (elections s e) p) c) < MAX_UINT256 \<and>
      totalVotes (elections s e) < MAX_UINT256")
    case True
    then show ?thesis using ok assms by (simp add: castVote_Inr)
  next
    case False
    then have "castVote s a now e p c h = Inl ArithmeticOverflow"
      using ok assms
      by (auto simp: castVote_def castVote_body_def nonReentrant_def modifier_defs
          checked_inc_def Let_def)
    then show ?thesis ..
  qed
next
  assume "paused s \<and> \<not> registeredVoters s a"
  then show "castVote s a now e p c h = Inl Unauthorized"
    by (simp add: castVote_def onlyRegisteredVoter_def)
qed

theorem castVote_guard_order_witness:
  "\<not> entered s_open_paused \<and>
   castVote s_open_paused 2 110 ''E1'' ''P1'' ''C1'' 0xAA = Inl SystemPaused \<and>
   paused s_open_paused \<and> \<not> registeredVoters s_open_paused 7 \<and>
   castVote s_open_paused 7 110 ''E1'' ''P1'' ''C1'' 0xAA = Inl Unauthorized \<and>
   \<not> entered s_voted \<and>
   first_failure (castVote_guards s_voted 3 120 ''E1'' ''P1'' ''C2'' 0xAA) = None \<and>
   (castVote s_voted 3 120 ''E1'' ''P1'' ''C2'' 0xAA =
      Inr (cast_result s_voted 3 120 ''E1'' ''P1'' ''C2'' 0xAA) \<or>
    castVote s_voted 3 120 ''E1'' ''P1'' ''C2'' 0xAA = Inl ArithmeticOverflow)"
proof -
  have ne: "\<not> entered s_open_paused" by (rule s_open_paused_facts)
  have nv: "\<not> entered s_voted" by (rule s_voted_facts)
  have f: "first_failure (castVote_guards s_open_paused 2 110 ''E1'' ''P1'' ''C1'' 0xAA) =
      Some SystemPaused"
    by (simp add: castVote_guards_def s_open_paused_facts)
  have g: "first_failure (castVote_guards s_voted 3 120 ''E1'' ''P1'' ''C2'' 0xAA) = None"
    by (simp add: castVote_guards_def candidateOf_def s_voted_facts)
  show ?thesis
    using castVote_guard_order[OF ne, of 2 110 "''E1''" "''P1''" "''C1''" "0xAA" SystemPaused]
      castVote_guard_order[OF ne, of 7 110 "''E1''" "''P1''" "''C1''" "0xAA"]
      castVote_guard_order[OF nv, of 3 120 "''E1''" "''P1''" "''C2''" "0xAA"]
      ne nv f g
    by (simp add: s_open_paused_facts)
qed

text \<open>
  C7 as stated puts the pause check first. Right after deployment the deployer pauses;
  address 9 is not registered, and its \<^verbatim>\<open>castVote\<close> reverts with
  \<open>Unauthorized\<close>, not \<open>SystemPaused\<close>.
\<close>

theorem paused_unregistered_counterexample:
  "paused s_paused_fresh \<and> \<not> registeredVoters s_paused_fresh 9 \<and>
   castVote s_paused_fresh 9 20 ''E1'' ''P1'' ''C1'' 0xAA = Inl Unauthorized \<and>
   castVote s_paused_fresh 9 20 ''E1'' ''P1'' ''C1'' 0xAA \<noteq> Inl SystemPaused"
  by (simp add: s_paused_fresh_def contract_defs)

subsection \<open>C8: identifiers used twice\<close>

text \<open>
  C8, at the failing input. The source documents \<^verbatim>\<open>positionId\<close> and
  \<^verbatim>\<open>candidateId\<close> as unique identifiers and \<^verbatim>\<open>createElection\<close> rejects an id in use,
  but \<^verbatim>\<open>addPosition\<close> and \<^verbatim>\<open>registerCandidate\<close> do not check: adding position
  \<open>P1\<close> twice leaves \<open>P1\<close> twice in \<^verbatim>\<open>positionIds\<close>, and registering
  candidate \<open>C1\<close> again after the election lists \<open>C1\<close> twice in
  \<^verbatim>\<open>candidateIds\<close> and resets its \<^verbatim>\<open>voteCount\<close> from 1 to 0.
\<close>

theorem duplicate_ids_accepted:
  "positionIds (elections (run s_created
      [(1, 51, AddPosition ''E1'' ''P1'' ''President'' [] 1 1),
       (1, 52, AddPosition ''E1'' ''P1'' ''Chair'' [] 2 2)]) ''E1'') = [''P1'', ''P1''] \<and>
   c_voteCount (candidateOf s_ended ''E1'' ''P1'' ''C1'') = 1 \<and>
   candidateIds (positions (elections (transact s_ended
      (1, 220, RegisterCandidate ''E1'' ''P1'' ''C1'' ''Alice'' [] [] 0x11)) ''E1'') ''P1'') =
      [''C1'', ''C2'', ''C1''] \<and>
   c_voteCount (candidateOf (transact s_ended
      (1, 220, RegisterCandidate ''E1'' ''P1'' ''C1'' ''Alice'' [] [] 0x11)) ''E1'' ''P1'' ''C1'') = 0"
  by (simp add: candidateOf_def scenario_defs contract_defs)

text \<open>
  Election ids are unique, as C8 says: \<^verbatim>\<open>electionIds\<close> never holds an id twice,
  and \<^verbatim>\<open>createElection\<close> with an id in use fails.
\<close>

lemma election_ids_unique:
  assumes "reachable s"
  shows "distinct (electionIds s) \<and>
         (e \<in> set (electionIds s) \<longrightarrow> isl (createElection s a now e t d st en))"
proof -
  have iv: "inv_elections s" using assms by (rule reachable_inv_elections)
  have "isl (createElection s a now e t d st en)" if "e \<in> set (electionIds s)"
  proof (cases "createElection s a now e t d st en")
    case (Inr s')
    with iv that show ?thesis by (simp add: createElection_Inr inv_elections_def)
  qed simp
  with iv show ?thesis by (simp add: inv_elections_def)
qed

subsection \<open>C9: verifyVote returns the latest record of a hash\<close>

text \<open>
  C9, as amended. Right after a successful \<^verbatim>\<open>castVote\<close> with hash \<open>h\<close>,
  \<^verbatim>\<open>verifyVote\<close> of \<open>h\<close> returns exactly the election, position, candidate, caller
  and time of that call, and it keeps returning them through every later successful call
  other than a \<^verbatim>\<open>castVote\<close> with the same hash, which replaces them. In a reachable
  state \<^verbatim>\<open>verifyVote\<close> succeeds for every hash that was cast and fails with
  \<open>VoteNotFound\<close> for every hash that was not. \<^verbatim>\<open>verifyVote\<close> is a view and returns
  no storage.
\<close>

theorem verifyVote_latest:
  "(a \<noteq> 0 \<and> castVote s a now e p c h = Inr s' \<longrightarrow>
      verifyVote s' h = Inr (e, p, c, a, now, True)) \<and>
   (step s a now opn = Inr s' \<and> \<not> casts_hash opn k \<longrightarrow> verifyVote s' k = verifyVote s k) \<and>
   (reachable s \<and> k \<in> set (voteHashes s) \<longrightarrow> \<not> isl (verifyVote s k)) \<and>
   (reachable s \<and> k \<notin> set (voteHashes s) \<longrightarrow> verifyVote s k = Inl VoteNotFound)"
proof (intro conjI impI)
  assume "a \<noteq> 0 \<and> castVote s a now e p c h = Inr s'"
  then show "verifyVote s' h = Inr (e, p, c, a, now, True)"
    by (simp add: castVote_Inr cast_result_def verifyVote_def)
next
  assume "step s a now opn = Inr s' \<and> \<not> casts_hash opn k"
  then have "votes s' k = votes s k" using step_votes_other by blast
  then show "verifyVote s' k = verifyVote s k" by (simp add: verifyVote_def)
next
  assume "reachable s \<and> k \<in> set (voteHashes s)"
  then show "\<not> isl (verifyVote s k)"
    by (simp add: verifyVote_present reachable_inv_votes)
next
  assume "reachable s \<and> k \<notin> set (voteHashes s)"
  then show "verifyVote s k = Inl VoteNotFound"
    by (simp add: verifyVote_absent reachable_inv_votes)
qed

theorem verifyVote_latest_witness:
  "castVote s_open 2 110 ''E1'' ''P1'' ''C1'' 0xAA = Inr s_voted \<and>
   verifyVote s_voted 0xAA = Inr (''E1'', ''P1'', ''C1'', 2, 110, True) \<and>
   reachable s_voted \<and> 0xBB \<notin> set (voteHashes s_voted) \<and>
   verifyVote s_voted 0xBB = Inl VoteNotFound \<and>
   0xAA \<in> set (voteHashes s_voted) \<and> \<not> isl (verifyVote s_voted 0xAA) \<and>
   \<not> casts_hash (EndElection ''E1'') 0xAA \<and>
   verifyVote s_ended 0xAA = verifyVote s_voted 0xAA"
proof -
  have c: "castVote s_open 2 110 ''E1'' ''P1'' ''C1'' 0xAA = Inr s_voted"
    by (simp add: castVote_Inr s_open_facts MAX_UINT256_def s_voted_eq)
  have e: "step s_voted 1 200 (EndElection ''E1'') = Inr s_ended"
    by (simp add: endElection_Inr s_voted_facts s_ended_eq)
  show ?thesis
    using verifyVote_latest[where a = 2 and s = s_open and now = 110 and e = "''E1''" and
        p = "''P1''" and c = "''C1''" and h = "0xAA" and s' = s_voted and k = "0xBB" and
        opn = "CastVote ''E1'' ''P1'' ''C1'' 0xAA"]
      verifyVote_latest[where s = s_voted and k = "0xBB"]
      verifyVote_latest[where s = s_voted and k = "0xAA"]
      verifyVote_latest[where s = s_voted and a = 1 and now = 200 and s' = s_ended and
        opn = "EndElection ''E1''" and k = "0xAA"]
      c e s_voted_reachable
    by (simp add: s_voted_facts)
qed

text \<open>
  C9 as stated returns, for every successful \<^verbatim>\<open>castVote\<close>, the data of that call. Voter 2
  casts hash \<open>0xAA\<close> for \<open>C1\<close> at time 110, then voter 3 casts it for \<open>C2\<close> at
  time 120: \<^verbatim>\<open>verifyVote\<close> returns voter 3's data and no longer voter 2's.
\<close>

theorem overwritten_record_counterexample:
  "castVote s_open 2 110 ''E1'' ''P1'' ''C1'' 0xAA = Inr s_voted \<and>
   castVote s_voted 3 120 ''E1'' ''P1'' ''C2'' 0xAA = Inr s_revoted \<and>
   verifyVote s_revoted 0xAA = Inr (''E1'', ''P1'', ''C2'', 3, 120, True) \<and>
   verifyVote s_revoted 0xAA \<noteq> Inr (''E1'', ''P1'', ''C1'', 2, 110, True)"
proof -
  have c1: "castVote s_open 2 110 ''E1'' ''P1'' ''C1'' 0xAA = Inr s_voted"
    by (simp add: castVote_Inr s_open_facts MAX_UINT256_def s_voted_eq)
  have c2: "castVote s_voted 3 120 ''E1'' ''P1'' ''C2'' 0xAA = Inr s_revoted"
    by (simp add: castVote_Inr s_voted_facts MAX_UINT256_def s_revoted_eq)
  show ?thesis
    by (simp add: c1 c2 verifyVote_def s_revoted_vote)
qed

subsection \<open>C10: what the pause switch affects\<close>

text \<open>
  C10, as amended. While the system is paused every \<^verbatim>\<open>castVote\<close> fails: with
  \<open>SystemPaused\<close> for a registered caller and with \<open>Unauthorized\<close> for a caller
  who is not registered. The pause flag has no effect on the administrative calls
  (\<^verbatim>\<open>registerVoter\<close>, \<^verbatim>\<open>revokeVoter\<close>, \<^verbatim>\<open>createElection\<close>,
  \<^verbatim>\<open>addPosition\<close>, \<^verbatim>\<open>registerCandidate\<close>, \<^verbatim>\<open>startElection\<close>,
  \<^verbatim>\<open>endElection\<close>, \<^verbatim>\<open>publishResults\<close>): each gives the same error, or
  the same storage up to the flag, whatever the flag is. \<^verbatim>\<open>pause\<close> and
  \<^verbatim>\<open>unpause\<close> succeed only for a holder of \<^verbatim>\<open>DEFAULT_ADMIN_ROLE\<close>, a
  role different from \<^verbatim>\<open>ELECTION_ADMIN_ROLE\<close>.
\<close>

theorem pause_scope:
  "(paused s \<longrightarrow>
      (\<exists>err. castVote s a now e p c h = Inl err) \<and>
      (registeredVoters s a \<and> \<not> entered s \<longrightarrow> castVote s a now e p c h = Inl SystemPaused) \<and>
      (\<not> registeredVoters s a \<longrightarrow> castVote s a now e p c h = Inl Unauthorized)) \<and>
   (is_admin_op opn \<longrightarrow>
      step (s\<lparr>paused := b\<rparr>) a now opn =
        map_sum id (\<lambda>s'. s'\<lparr>paused := b\<rparr>) (step s a now opn)) \<and>
   ((\<exists>s'. pause s a = Inr s') \<longleftrightarrow> hasRole s DEFAULT_ADMIN_ROLE a \<and> \<not> paused s) \<and>
   ((\<exists>s'. unpause s a = Inr s') \<longleftrightarrow> hasRole s DEFAULT_ADMIN_ROLE a \<and> paused s) \<and>
   (\<not> hasRole s DEFAULT_ADMIN_ROLE a \<longrightarrow>
      pause s a = Inl Unauthorized \<and> unpause s a = Inl Unauthorized) \<and>
   DEFAULT_ADMIN_ROLE \<noteq> ELECTION_ADMIN_ROLE"
proof (intro conjI)
  show "paused s \<longrightarrow>
      (\<exists>err. castVote s a now e p c h = Inl err) \<and>
      (registeredVoters s a \<and> \<not> entered s \<longrightarrow> castVote s a now e p c h = Inl SystemPaused) \<and>
      (\<not> registeredVoters s a \<longrightarrow> castVote s a now e p c h = Inl Unauthorized)"
    by (auto simp: castVote_def nonReentrant_def modifier_defs require_def)
next
  show "is_admin_op opn \<longrightarrow>
      step (s\<lparr>paused := b\<rparr>) a now opn =
        map_sum id (\<lambda>s'. s'\<lparr>paused := b\<rparr>) (step s a now opn)"
    by (cases opn)
      (auto simp: registerVoter_def revokeVoter_def createElection_def addPosition_def
        registerCandidate_def startElection_def endElection_def publishResults_def
        internal_grantRole_def internal_revokeRole_def modifier_defs hasRole_def
        require_def Let_def)
next
  show "(\<exists>s'. pause s a = Inr s') \<longleftrightarrow> hasRole s DEFAULT_ADMIN_ROLE a \<and> \<not> paused s"
    by (simp add: pause_Inr)
next
  show "(\<exists>s'. unpause s a = Inr s') \<longleftrightarrow> hasRole s DEFAULT_ADMIN_ROLE a \<and> paused s"
    by (simp add: unpause_Inr)
next
  show "\<not> hasRole s DEFAULT_ADMIN_ROLE a \<longrightarrow>
      pause s a = Inl Unauthorized \<and> unpause s a = Inl Unauthorized"
    by (simp add: pause_def unpause_def onlyRole_def)
next
  show "DEFAULT_ADMIN_ROLE \<noteq> ELECTION_ADMIN_ROLE"
    by (simp add: DEFAULT_ADMIN_ROLE_def ELECTION_ADMIN_ROLE_def)
qed

theorem pause_scope_witness:
  "paused s_open_paused \<and>
   castVote s_open_paused 2 110 ''E1'' ''P1'' ''C1'' 0xAA = Inl SystemPaused \<and>
   is_admin_op (EndElection ''E1'') \<and>
   step (s_open\<lparr>paused := True\<rparr>) 1 200 (EndElection ''E1'') =
     map_sum id (\<lambda>s'. s'\<lparr>paused := True\<rparr>) (step s_open 1 200 (EndElection ''E1'')) \<and>
   \<not> hasRole s_open DEFAULT_ADMIN_ROLE 2 \<and> pause s_open 2 = Inl Unauthorized \<and>
   hasRole s_open DEFAULT_ADMIN_ROLE 1 \<and> \<not> paused s_open \<and> \<not> isl (pause s_open 1)"
proof -
  have r: "\<not> hasRole s_open DEFAULT_ADMIN_ROLE 2" "hasRole s_open DEFAULT_ADMIN_ROLE 1"
    by (simp_all add: scenario_defs contract_defs)
  show ?thesis
    using pause_scope[of s_open_paused 2 110 "''E1''" "''P1''" "''C1''" "0xAA"
        "EndElection ''E1''" True]
      pause_scope[of s_open 1 200 "''E1''" "''P1''" "''C1''" "0xAA" "EndElection ''E1''" True]
      pause_scope[of s_open 2 200 "''E1''" "''P1''" "''C1''" "0xAA" "EndElection ''E1''" True]
      r
    by (auto simp: s_open_paused_facts s_open_facts)
qed

text \<open>
  C10 as stated has every \<^verbatim>\<open>castVote\<close> fail with \<open>SystemPaused\<close> while
  paused. With election \<open>E1\<close> open and the system paused, address 7, which is not
  registered, gets \<open>Unauthorized\<close>.
\<close>

theorem paused_open_unregistered_counterexample:
  "paused s_open_paused \<and> \<not> registeredVoters s_open_paused 7 \<and>
   castVote s_open_paused 7 110 ''E1'' ''P1'' ''C1'' 0xAA = Inl Unauthorized \<and>
   castVote s_open_paused 7 110 ''E1'' ''P1'' ''C1'' 0xAA \<noteq> Inl SystemPaused"
  by (simp add: s_open_paused_facts castVote_def onlyRegisteredVoter_def)

end
